theory Spec2Isabelle
  imports Complex_Main "HOL-Library.AList"
begin

section \<open>JSON values and Python dictionaries\<close>

text \<open>
  The spawn files are JSON documents read with \<open>json.load\<close>.  A JSON value is one of
  \<open>None\<close>, a \<open>bool\<close>, an \<open>int\<close>, a \<open>float\<close>, a \<open>str\<close>, a list or a dict.
  Python integers are unbounded (\<open>int\<close>).  Floats are read as reals: the codecs never do
  arithmetic on them, they only compare them with zero and convert them to and from text.
  A dict is an association list; \<open>d[k] = v\<close> replaces the entry of \<open>k\<close> in place or
  appends a new one, which is what \<open>AList.update\<close> does.  Strings are lists of characters
  with code points below 256.
\<close>

datatype json =
    JNull
  | JBool bool
  | JInt int
  | JFloat real
  | JStr string
  | JList "json list"
  | JObj "(string \<times> json) list"

type_synonym dict = "(string \<times> json) list"

text \<open>\<open>d.get(k)\<close> without a default: \<open>None\<close> when the key is missing.\<close>

definition dict_get :: "dict \<Rightarrow> string \<Rightarrow> json option" where
  "dict_get d k = map_of d k"

text \<open>\<open>d.get(k, default)\<close>.\<close>

definition py_get :: "dict \<Rightarrow> string \<Rightarrow> json \<Rightarrow> json" where
  "py_get d k dflt = (case map_of d k of None \<Rightarrow> dflt | Some v \<Rightarrow> v)"

text \<open>\<open>d[k] = v\<close>.\<close>

definition dict_set :: "dict \<Rightarrow> string \<Rightarrow> json \<Rightarrow> dict" where
  "dict_set d k v = AList.update k v d"

text \<open>\<open>d.pop(k, None)\<close>, the dictionary after the call.\<close>

definition dict_pop :: "dict \<Rightarrow> string \<Rightarrow> dict" where
  "dict_pop d k = AList.delete k d"

text \<open>\<open>k in d\<close>.\<close>

definition has_key :: "dict \<Rightarrow> string \<Rightarrow> bool" where
  "has_key d k = (map_of d k \<noteq> None)"

text \<open>Python's truth value of a JSON value, as tested by \<open>if v:\<close> and \<open>not v\<close>.\<close>

fun py_truthy :: "json \<Rightarrow> bool" where
  "py_truthy JNull = False"
| "py_truthy (JBool b) = b"
| "py_truthy (JInt n) = (n \<noteq> 0)"
| "py_truthy (JFloat x) = (x \<noteq> 0)"
| "py_truthy (JStr s) = (s \<noteq> [])"
| "py_truthy (JList xs) = (xs \<noteq> [])"
| "py_truthy (JObj d) = (d \<noteq> [])"

text \<open>
  Reading a value at the type a widget is written for.  The functions are left
  unspecified on the other constructors; the builders below check the types first.
\<close>

fun as_str :: "json \<Rightarrow> string" where
  "as_str (JStr s) = s"

fun as_bool :: "json \<Rightarrow> bool" where
  "as_bool (JBool b) = b"

fun as_int :: "json \<Rightarrow> int" where
  "as_int (JInt n) = n"

fun as_list :: "json \<Rightarrow> json list" where
  "as_list (JList xs) = xs"

fun as_obj :: "json \<Rightarrow> dict" where
  "as_obj (JObj d) = d"

fun is_JStr :: "json \<Rightarrow> bool" where
  "is_JStr (JStr s) = True"
| "is_JStr _ = False"

fun is_JBool :: "json \<Rightarrow> bool" where
  "is_JBool (JBool b) = True"
| "is_JBool _ = False"

fun is_JInt :: "json \<Rightarrow> bool" where
  "is_JInt (JInt n) = True"
| "is_JInt _ = False"

fun is_JObj :: "json \<Rightarrow> bool" where
  "is_JObj (JObj d) = True"
| "is_JObj _ = False"

fun is_str_list :: "json \<Rightarrow> bool" where
  "is_str_list (JList xs) = list_all is_JStr xs"
| "is_str_list _ = False"


section \<open>Python strings\<close>

definition nl :: char where
  "nl = CHR 0x0A"

text \<open>\<open>str.isspace\<close> on one character, for code points below 256.\<close>

definition py_isspace :: "char \<Rightarrow> bool" where
  "py_isspace c = (c \<in> set [CHR 0x09, CHR 0x0A, CHR 0x0B, CHR 0x0C, CHR 0x0D,
                             CHR 0x1C, CHR 0x1D, CHR 0x1E, CHR 0x1F, CHR 0x20,
                             CHR 0x85, CHR 0xA0])"

text \<open>\<open>s.strip()\<close>.\<close>

definition py_strip :: "string \<Rightarrow> string" where
  "py_strip s = rev (dropWhile py_isspace (rev (dropWhile py_isspace s)))"

text \<open>\<open>s.split("\n")\<close>: always at least one piece.\<close>

fun split_nl :: "string \<Rightarrow> string list" where
  "split_nl [] = [[]]"
| "split_nl (c # cs) =
     (if c = nl then [] # split_nl cs
      else (c # hd (split_nl cs)) # tl (split_nl cs))"

text \<open>\<open>"\n".join(xs)\<close>.\<close>

fun join_nl :: "string list \<Rightarrow> string" where
  "join_nl [] = []"
| "join_nl [x] = x"
| "join_nl (x # y # ys) = x @ nl # join_nl (y # ys)"

text \<open>\<open>[line.strip() for line in val.split("\n") if line.strip()]\<close>.\<close>

definition entries_of :: "string \<Rightarrow> string list" where
  "entries_of val = [py_strip line. line \<leftarrow> split_nl val, py_strip line \<noteq> []]"

subsection \<open>Integers as text\<close>

definition digit_char :: "nat \<Rightarrow> char" where
  "digit_char d = ''0123456789'' ! d"

definition is_digit :: "char \<Rightarrow> bool" where
  "is_digit c = (c \<in> set ''0123456789'')"

definition digit_val :: "char \<Rightarrow> nat" where
  "digit_val c = of_char c - 48"

fun str_nat :: "nat \<Rightarrow> string" where
  "str_nat n = (if n < 10 then [digit_char n] else str_nat (n div 10) @ [digit_char (n mod 10)])"

declare str_nat.simps [simp del]

text \<open>\<open>str(n)\<close> for an \<open>int\<close>.\<close>

definition str_int :: "int \<Rightarrow> string" where
  "str_int n = (if n < 0 then CHR ''-'' # str_nat (nat (- n)) else str_nat (nat n))"

text \<open>
  \<open>int(s)\<close> for a \<open>str\<close>: surrounding whitespace is ignored, then comes an optional sign
  and decimal digits, where single underscores may separate digits.  \<open>None\<close> is the
  \<open>ValueError\<close>.  The interpreter's limit on the number of digits of a numeral is not
  modelled.
\<close>

fun digits_acc :: "nat \<Rightarrow> string \<Rightarrow> nat option" where
  "digits_acc acc [] = Some acc"
| "digits_acc acc [c] = (if is_digit c then Some (acc * 10 + digit_val c) else None)"
| "digits_acc acc (c # d # cs) =
     (if is_digit c then digits_acc (acc * 10 + digit_val c) (d # cs)
      else if c = CHR ''_'' \<and> is_digit d then digits_acc (acc * 10 + digit_val d) cs
      else None)"

definition py_digits :: "string \<Rightarrow> nat option" where
  "py_digits s = (case s of [] \<Rightarrow> None
                  | c # cs \<Rightarrow> if is_digit c then digits_acc (digit_val c) cs else None)"

definition py_int :: "string \<Rightarrow> int option" where
  "py_int s =
     (case py_strip s of
        [] \<Rightarrow> None
      | c # cs \<Rightarrow>
          if c = CHR ''-'' then map_option (\<lambda>n. - int n) (py_digits cs)
          else if c = CHR ''+'' then map_option int (py_digits cs)
          else map_option int (py_digits (c # cs)))"

text \<open>
  \<open>str(v)\<close> for the JSON values whose text the codecs can meet: a string is itself, an
  integer is its decimal numeral.  The \<open>repr\<close> of a float, a list or a dict is not
  modelled.
\<close>

fun py_str :: "json \<Rightarrow> string" where
  "py_str (JStr s) = s"
| "py_str (JInt n) = str_int n"
| "py_str (JBool b) = (if b then ''True'' else ''False'')"
| "py_str JNull = ''None''"

fun str_modelled :: "json \<Rightarrow> bool" where
  "str_modelled (JFloat x) = False"
| "str_modelled (JList xs) = False"
| "str_modelled (JObj d) = False"
| "str_modelled _ = True"


section \<open>Vocabularies\<close>

definition SPAWN_TYPES :: "string list" where
  "SPAWN_TYPES = [''pokemon'', ''pokemon-herd'', ''npc'']"

definition TIME_RANGES :: "string list" where
  "TIME_RANGES = ['''', ''any'', ''day'', ''night'', ''morning'', ''noon'', ''afternoon'',
                  ''evening'', ''midnight'', ''predawn'', ''dawn'', ''dusk'', ''twilight'']"

definition MOON_PHASES :: "string list" where
  "MOON_PHASES = ['''', ''full'', ''new'', ''crescent'', ''gibbous'', ''quarter'',
                  ''waxing'', ''waning'']"

definition CONDITION_BOOL_FIELDS :: "string list" where
  "CONDITION_BOOL_FIELDS =
     [''canSeeSky'', ''isRaining'', ''isThundering'', ''isSlimeChunk'', ''fluidIsSource'']"

definition CONDITION_INT_FIELDS :: "string list" where
  "CONDITION_INT_FIELDS =
     [''minSkyLight'', ''maxSkyLight'', ''minLight'', ''maxLight'',
      ''minY'', ''maxY'', ''minX'', ''maxX'', ''minZ'', ''maxZ'',
      ''minLureLevel'', ''maxLureLevel'',
      ''minHeight'', ''maxHeight'', ''minDepth'', ''maxDepth'']"

definition CONDITION_LIST_FIELDS :: "string list" where
  "CONDITION_LIST_FIELDS =
     [''biomes'', ''structures'', ''neededNearbyBlocks'', ''neededBaseBlocks'',
      ''dimensions'', ''markers'']"

definition CONDITION_STRING_FIELDS :: "string list" where
  "CONDITION_STRING_FIELDS = [''bait'', ''rodType'', ''rod'', ''fluid'']"


section \<open>Condition codec\<close>

text \<open>
  Each loop of the two condition editors has the shape
  \<open>for field, x in items: if ...: result[field] = ...\<close>.  \<open>put_each g\<close> is that loop: \<open>g x\<close>
  is \<open>Some v\<close> when the body stores \<open>v\<close> and \<open>None\<close> when it stores nothing.
\<close>

definition put_each :: "('a \<Rightarrow> json option) \<Rightarrow> (string \<times> 'a) list \<Rightarrow> dict \<Rightarrow> dict" where
  "put_each g items result =
     fold (\<lambda>(field, x) result. case g x of Some v \<Rightarrow> dict_set result field v | None \<Rightarrow> result)
       items result"

text \<open>\<open>if val: result[key] = val\<close> for a string.\<close>

definition put_nonempty :: "string \<Rightarrow> string \<Rightarrow> dict \<Rightarrow> dict" where
  "put_nonempty key val result = (if val \<noteq> [] then dict_set result key (JStr val) else result)"

subsection \<open>Desktop editor (\<open>exe.py\<close>, class \<open>ConditionEditor\<close>)\<close>

text \<open>
  The editor keeps one Tk variable per field: \<open>int_vars\<close> holds the text of the entry and
  the flag \<open>current is not None\<close>; \<open>list_texts\<close> holds the content of the text box.
\<close>

record ConditionEditor =
  time_var :: string
  moon_var :: string
  bool_vars :: "(string \<times> bool) list"
  int_vars :: "(string \<times> string \<times> bool) list"
  list_texts :: "(string \<times> string) list"
  str_vars :: "(string \<times> string) list"

text \<open>
  The types \<open>_build\<close> is written for.  On any other value the outcome depends on how Tk
  converts it, which is outside the repository.
\<close>

definition absent_or :: "(json \<Rightarrow> bool) \<Rightarrow> dict \<Rightarrow> string \<Rightarrow> bool" where
  "absent_or P cond field = (case map_of cond field of None \<Rightarrow> True | Some v \<Rightarrow> P v)"

definition exe_cond_typed :: "dict \<Rightarrow> bool" where
  "exe_cond_typed cond =
     (absent_or is_JStr cond ''timeRange'' \<and>
      absent_or str_modelled cond ''moonPhase'' \<and>
      list_all (absent_or is_JBool cond) CONDITION_BOOL_FIELDS \<and>
      list_all (absent_or (\<lambda>v. v = JNull \<or> is_JInt v) cond) CONDITION_INT_FIELDS \<and>
      list_all (absent_or is_str_list cond) CONDITION_LIST_FIELDS \<and>
      list_all (absent_or is_JStr cond) CONDITION_STRING_FIELDS)"

definition exe_int_var :: "dict \<Rightarrow> string \<Rightarrow> string \<times> bool" where
  "exe_int_var cond field =
     (let current = py_get cond field JNull
      in (if current \<noteq> JNull then py_str current else [], current \<noteq> JNull))"

definition exe_list_text :: "dict \<Rightarrow> string \<Rightarrow> string" where
  "exe_list_text cond field =
     (let current = py_get cond field (JList [])
      in if py_truthy current then join_nl (map as_str (as_list current)) else [])"

text \<open>The variables \<open>_build\<close> creates, and \<open>_build\<close> on the sources it is written for.\<close>

definition ConditionEditor_vars :: "dict \<Rightarrow> ConditionEditor" where
  "ConditionEditor_vars cond =
     \<lparr> time_var = as_str (py_get cond ''timeRange'' (JStr [])),
       moon_var = py_str (py_get cond ''moonPhase'' (JStr [])),
       bool_vars = map (\<lambda>field. (field, as_bool (py_get cond field (JBool False))))
                     CONDITION_BOOL_FIELDS,
       int_vars = map (\<lambda>field. (field, exe_int_var cond field)) CONDITION_INT_FIELDS,
       list_texts = map (\<lambda>field. (field, exe_list_text cond field)) CONDITION_LIST_FIELDS,
       str_vars = map (\<lambda>field. (field, as_str (py_get cond field (JStr []))))
                    CONDITION_STRING_FIELDS \<rparr>"

definition ConditionEditor_build :: "dict \<Rightarrow> ConditionEditor option" where
  "ConditionEditor_build cond =
     (if \<not> exe_cond_typed cond then None else Some (ConditionEditor_vars cond))"

text \<open>The four loop bodies of \<open>get_data\<close>.\<close>

definition exe_bool_out :: "bool \<Rightarrow> json option" where
  "exe_bool_out var = (if var then Some (JBool True) else None)"

definition exe_int_out :: "string \<times> bool \<Rightarrow> json option" where
  "exe_int_out p =
     (case p of (var, had_value) \<Rightarrow>
        let raw = py_strip var
        in if raw \<noteq> [] then
             (case py_int raw of
                Some val \<Rightarrow> if had_value \<or> val \<noteq> 0 then Some (JInt val) else None
              | None \<Rightarrow> None)
           else None)"

text \<open>\<open>txt.get("1.0", "end")\<close> returns the content of the box followed by a newline.\<close>

definition exe_list_out :: "string \<Rightarrow> json option" where
  "exe_list_out txt =
     (let content = py_strip (txt @ [nl]);
          entries = entries_of content
      in if entries \<noteq> [] then Some (JList (map JStr entries)) else None)"

definition exe_str_out :: "string \<Rightarrow> json option" where
  "exe_str_out var = (let val = py_strip var in if val \<noteq> [] then Some (JStr val) else None)"

definition ConditionEditor_get_data :: "ConditionEditor \<Rightarrow> dict" where
  "ConditionEditor_get_data e =
     (put_each exe_str_out (str_vars e)
       (put_each exe_list_out (list_texts e)
         (put_each exe_int_out (int_vars e)
           (put_each exe_bool_out (bool_vars e)
             (put_nonempty ''moonPhase'' (moon_var e)
               (put_nonempty ''timeRange'' (time_var e) []))))))"

subsection \<open>Browser editor (\<open>app.py\<close>, function \<open>render_condition\<close>)\<close>

text \<open>
  \<open>render_condition\<close> creates the widgets and reads them in one pass.  A widget returns
  the value it holds: on the first run that is its \<open>value=\<close> or \<open>index=\<close> argument
  (\<open>condition_widgets\<close>), afterwards whatever the user left in it.  The record is the
  widget state of one condition.
\<close>

record cond_widgets =
  time_val :: string
  moon_val :: string
  bool_vals :: "(string \<times> bool) list"
  int_vals :: "(string \<times> int) list"
  list_vals :: "(string \<times> string) list"
  str_vals :: "(string \<times> string) list"

text \<open>
  The types the widgets are given values of.  \<open>timeRange\<close> may hold anything: it is only
  compared with the vocabulary.  On any other value of the remaining fields the outcome
  depends on Streamlit's own checks, which are outside the repository.
\<close>

definition app_cond_typed :: "dict \<Rightarrow> bool" where
  "app_cond_typed cond =
     (absent_or str_modelled cond ''moonPhase'' \<and>
      list_all (absent_or is_JBool cond) CONDITION_BOOL_FIELDS \<and>
      list_all (absent_or (\<lambda>v. v = JNull \<or> is_JInt v) cond) CONDITION_INT_FIELDS \<and>
      list_all (absent_or is_str_list cond) CONDITION_LIST_FIELDS \<and>
      list_all (absent_or is_JStr cond) CONDITION_STRING_FIELDS)"

definition app_time_val :: "dict \<Rightarrow> string" where
  "app_time_val cond =
     (let current_time = py_get cond ''timeRange'' (JStr [])
      in if current_time \<in> set (map JStr TIME_RANGES) then as_str current_time
         else TIME_RANGES ! 0)"

definition app_moon_val :: "dict \<Rightarrow> string" where
  "app_moon_val cond =
     (let current_moon = py_str (py_get cond ''moonPhase'' (JStr []))
      in if current_moon \<in> set MOON_PHASES then current_moon else MOON_PHASES ! 0)"

definition app_int_val :: "dict \<Rightarrow> string \<Rightarrow> int" where
  "app_int_val cond field =
     (let current = py_get cond field JNull
      in if current \<noteq> JNull then as_int current else 0)"

definition app_list_val :: "dict \<Rightarrow> string \<Rightarrow> string" where
  "app_list_val cond field =
     (let current = py_get cond field (JList []) in join_nl (map as_str (as_list current)))"

definition widget_values :: "dict \<Rightarrow> cond_widgets" where
  "widget_values cond =
     \<lparr> time_val = app_time_val cond,
       moon_val = app_moon_val cond,
       bool_vals = map (\<lambda>field. (field, as_bool (py_get cond field (JBool False))))
                     CONDITION_BOOL_FIELDS,
       int_vals = map (\<lambda>field. (field, app_int_val cond field)) CONDITION_INT_FIELDS,
       list_vals = map (\<lambda>field. (field, app_list_val cond field)) CONDITION_LIST_FIELDS,
       str_vals = map (\<lambda>field. (field, as_str (py_get cond field (JStr []))))
                    CONDITION_STRING_FIELDS \<rparr>"

definition condition_widgets :: "dict \<Rightarrow> cond_widgets option" where
  "condition_widgets cond =
     (if \<not> app_cond_typed cond then None else Some (widget_values cond))"

definition app_bool_out :: "bool \<Rightarrow> json option" where
  "app_bool_out val = (if val then Some (JBool val) else None)"

text \<open>The integer loop reads \<open>current = cond.get(field)\<close> from the source object.\<close>

definition app_int_out :: "dict \<Rightarrow> string \<times> int \<Rightarrow> json option" where
  "app_int_out cond p =
     (case p of (field, int_val) \<Rightarrow>
        let current = py_get cond field JNull
        in if current \<noteq> JNull \<or> int_val \<noteq> 0 then Some (JInt int_val) else None)"

definition app_list_out :: "string \<Rightarrow> json option" where
  "app_list_out val =
     (let entries = entries_of val
      in if entries \<noteq> [] then Some (JList (map JStr entries)) else None)"

definition app_str_out :: "string \<Rightarrow> json option" where
  "app_str_out val = (if val \<noteq> [] then Some (JStr val) else None)"

definition render_condition :: "dict \<Rightarrow> cond_widgets \<Rightarrow> dict" where
  "render_condition cond w =
     (put_each app_str_out (str_vals w)
       (put_each app_list_out (list_vals w)
         (put_each (app_int_out cond) (map (\<lambda>(field, v). (field, (field, v))) (int_vals w))
           (put_each app_bool_out (bool_vals w)
             (put_nonempty ''moonPhase'' (moon_val w)
               (put_nonempty ''timeRange'' (time_val w) []))))))"


section \<open>Weight multipliers, herd members and drops\<close>

text \<open>
  \<open>float(text)\<close> and \<open>str(x)\<close> of a float are Python built-ins.  The encoders take the
  first as the parameter \<open>pfloat\<close> (\<open>None\<close> is the \<open>ValueError\<close>) and the builders the
  second as \<open>fstr\<close>.
\<close>

definition str_num :: "(real \<Rightarrow> string) \<Rightarrow> json \<Rightarrow> string" where
  "str_num fstr v = (case v of JFloat x \<Rightarrow> fstr x | _ \<Rightarrow> py_str v)"

fun is_number :: "json \<Rightarrow> bool" where
  "is_number (JInt n) = True"
| "is_number (JFloat x) = True"
| "is_number _ = False"

subsection \<open>Desktop editors\<close>

record WeightMultiplierEditor =
  mult_var :: string
  wm_cond_editor :: ConditionEditor

definition wm_typed :: "json \<Rightarrow> bool" where
  "wm_typed wm =
     (case wm of
        JObj d \<Rightarrow> absent_or is_number d ''multiplier'' \<and>
                  absent_or (\<lambda>c. is_JObj c \<and> exe_cond_typed (as_obj c)) d ''condition''
      | _ \<Rightarrow> False)"

definition WeightMultiplierEditor_init ::
    "(real \<Rightarrow> string) \<Rightarrow> json \<Rightarrow> WeightMultiplierEditor option" where
  "WeightMultiplierEditor_init fstr wm =
     (if \<not> wm_typed wm then None
      else case ConditionEditor_build (as_obj (py_get (as_obj wm) ''condition'' (JObj []))) of
             None \<Rightarrow> None
           | Some ce \<Rightarrow>
               Some \<lparr> mult_var = str_num fstr (py_get (as_obj wm) ''multiplier'' (JFloat 1.0)),
                      wm_cond_editor = ce \<rparr>)"

definition WeightMultiplierEditor_get_data ::
    "(string \<Rightarrow> real option) \<Rightarrow> WeightMultiplierEditor \<Rightarrow> dict" where
  "WeightMultiplierEditor_get_data pfloat e =
     (let mult = (case pfloat (mult_var e) of Some x \<Rightarrow> x | None \<Rightarrow> 1.0)
      in dict_set (dict_set [] ''multiplier'' (JFloat mult))
           ''condition'' (JObj (ConditionEditor_get_data (wm_cond_editor e))))"

record HerdPokemonEditor =
  h_pokemon_var :: string
  h_level_var :: string
  h_weight_var :: string
  h_leader_var :: bool
  h_max_times_var :: string
  h_offset_var :: string

definition HerdPokemonEditor_get_data ::
    "(string \<Rightarrow> real option) \<Rightarrow> HerdPokemonEditor \<Rightarrow> dict" where
  "HerdPokemonEditor_get_data pfloat e =
     (let result = dict_set (dict_set [] ''pokemon'' (JStr (h_pokemon_var e)))
                     ''levelRange'' (JStr (h_level_var e));
          result = dict_set result ''weight''
                     (JFloat (case pfloat (h_weight_var e) of Some x \<Rightarrow> x | None \<Rightarrow> 1.0));
          result = dict_set result ''isLeader'' (JBool (h_leader_var e));
          result = (case py_int (h_max_times_var e) of
                      Some mt \<Rightarrow> if mt > 0 then dict_set result ''maxTimes'' (JInt mt) else result
                    | None \<Rightarrow> result);
          offset = py_strip (h_offset_var e)
      in if offset \<noteq> [] then dict_set result ''levelRangeOffset'' (JStr offset) else result)"

record drop_row =
  item_var :: string
  qr_var :: string
  pct_var :: string

record DropsEditor =
  enabled_var :: bool
  amount_var :: string
  entry_widgets :: "drop_row list"

text \<open>One pass of the loop over \<open>entry_widgets\<close>: \<open>None\<close> is the \<open>continue\<close>.\<close>

definition drop_row_out :: "(string \<Rightarrow> real option) \<Rightarrow> drop_row \<Rightarrow> dict option" where
  "drop_row_out pfloat wd =
     (let item = py_strip (item_var wd)
      in if item = [] then None
         else let e = dict_set [] ''item'' (JStr item);
                  qr = py_strip (qr_var wd);
                  e = (if qr \<noteq> [] then dict_set e ''quantityRange'' (JStr qr) else e);
                  e = (case pfloat (pct_var wd) of
                         Some pct \<Rightarrow> if pct > 0 then dict_set e ''percentage'' (JFloat pct) else e
                       | None \<Rightarrow> e)
              in Some e)"

text \<open>\<open>get_data\<close> returns \<open>None\<close> when the drops are disabled.\<close>

definition DropsEditor_get_data :: "(string \<Rightarrow> real option) \<Rightarrow> DropsEditor \<Rightarrow> dict option" where
  "DropsEditor_get_data pfloat e =
     (if \<not> enabled_var e then None
      else let amount = (case py_int (amount_var e) of Some n \<Rightarrow> n | None \<Rightarrow> 1);
               entries = List.map_filter (drop_row_out pfloat) (entry_widgets e)
           in Some (dict_set (dict_set [] ''amount'' (JInt amount))
                      ''entries'' (JList (map JObj entries))))"

subsection \<open>Browser editors\<close>

record wm_widgets =
  mult_val :: real
  mc_widgets :: cond_widgets

definition render_weight_multiplier :: "dict \<Rightarrow> wm_widgets \<Rightarrow> dict" where
  "render_weight_multiplier wm w =
     (let result = dict_set [] ''multiplier'' (JFloat (mult_val w))
      in dict_set result ''condition''
           (JObj (render_condition (as_obj (py_get wm ''condition'' (JObj []))) (mc_widgets w))))"

record herd_widgets =
  poke_val :: string
  lr_val :: string
  w_val :: real
  leader_val :: bool
  mt_val :: int
  lro_val :: string

definition render_herd_pokemon :: "herd_widgets \<Rightarrow> dict" where
  "render_herd_pokemon w =
     (let result = dict_set [] ''pokemon'' (JStr (poke_val w));
          result = dict_set result ''levelRange'' (JStr (lr_val w));
          result = dict_set result ''weight'' (JFloat (w_val w));
          result = dict_set result ''isLeader'' (JBool (leader_val w));
          mt = mt_val w;
          result = (if mt > 0 then dict_set result ''maxTimes'' (JInt mt) else result);
          offset = lro_val w
      in if offset \<noteq> [] then dict_set result ''levelRangeOffset'' (JStr offset) else result)"

record drop_widgets =
  item_val :: string
  qr_val :: string
  pct_val :: real

record drops_widgets =
  has_drops_val :: bool
  amount_val :: int
  entry_vals :: "drop_widgets list"

definition drop_entry_out :: "drop_widgets \<Rightarrow> dict option" where
  "drop_entry_out w =
     (let item = item_val w; qr = qr_val w; pct = pct_val w
      in if item \<noteq> [] then
           let e = dict_set [] ''item'' (JStr item);
               e = (if qr \<noteq> [] then dict_set e ''quantityRange'' (JStr qr) else e);
               e = (if pct > 0 then dict_set e ''percentage'' (JFloat pct) else e)
           in Some e
         else None)"

text \<open>
  \<open>render_drops\<close> in a run where no \<open>Del\<close> box is ticked and no button is pressed (either
  restarts the script before anything is returned).
\<close>

definition render_drops :: "drops_widgets \<Rightarrow> dict option" where
  "render_drops w =
     (if \<not> has_drops_val w then None
      else let result = dict_set [] ''amount'' (JInt (amount_val w));
               updated_entries = List.map_filter drop_entry_out (entry_vals w)
           in Some (dict_set result ''entries'' (JList (map JObj updated_entries))))"


section \<open>Spawn entries\<close>

text \<open>
  Both front-ends start the weight multipliers the same way:
  \<open>wm = spawn.get("weightMultiplier"); wms = spawn.get("weightMultipliers", []);
  if wm and not wms: wms = [wm]\<close>.
\<close>

definition normalize_wms :: "dict \<Rightarrow> json" where
  "normalize_wms spawn =
     (let wm = py_get spawn ''weightMultiplier'' JNull;
          wms = py_get spawn ''weightMultipliers'' (JList [])
      in if py_truthy wm \<and> \<not> py_truthy wms then JList [wm] else wms)"

subsection \<open>Desktop editor (class \<open>SpawnEditor\<close>)\<close>

record SpawnEditor =
  id_var :: string
  type_var :: string
  pokemon_var :: string
  presets_list :: "string list"
  pos_var :: string
  bucket_var :: string
  level_var :: string
  weight_var :: string
  herd_size_var :: string
  herd_dist_var :: string
  herd_editors :: "HerdPokemonEditor list"
  wm_editors :: "WeightMultiplierEditor list"
  cond_editor :: ConditionEditor
  anti_editor :: ConditionEditor
  drops_editor :: DropsEditor

text \<open>The loop \<open>for wm in wms: self._add_weight_multiplier(wm)\<close> of \<open>_build\<close>.\<close>

definition build_wm_editors ::
    "(real \<Rightarrow> string) \<Rightarrow> dict \<Rightarrow> WeightMultiplierEditor option list" where
  "build_wm_editors fstr spawn = map (WeightMultiplierEditor_init fstr) (as_list (normalize_wms spawn))"

definition herd_part :: "(string \<Rightarrow> real option) \<Rightarrow> SpawnEditor \<Rightarrow> dict \<Rightarrow> dict" where
  "herd_part pfloat e result =
     (let result = dict_set result ''maxHerdSize''
                     (JInt (case py_int (herd_size_var e) of Some n \<Rightarrow> n | None \<Rightarrow> 5));
          result = dict_set result ''minDistanceBetweenSpawns''
                     (JFloat (case pfloat (herd_dist_var e) of Some x \<Rightarrow> x | None \<Rightarrow> 1.5))
      in dict_set result ''herdablePokemon''
           (JList (map (\<lambda>h. JObj (HerdPokemonEditor_get_data pfloat h)) (herd_editors e))))"

definition SpawnEditor_get_data :: "(string \<Rightarrow> real option) \<Rightarrow> SpawnEditor \<Rightarrow> dict" where
  "SpawnEditor_get_data pfloat e =
     (let result = dict_set (dict_set [] ''id'' (JStr (id_var e))) ''type'' (JStr (type_var e));
          is_herd = (type_var e = ''pokemon-herd'');
          result = (if \<not> is_herd then dict_set result ''pokemon'' (JStr (pokemon_var e))
                    else result);
          result = (if presets_list e \<noteq> []
                    then dict_set result ''presets'' (JList (map JStr (presets_list e)))
                    else result);
          result = dict_set result ''spawnablePositionType'' (JStr (pos_var e));
          result = dict_set result ''bucket'' (JStr (bucket_var e));
          level_key = (if is_herd then ''levelRange'' else ''level'');
          result = dict_set result level_key (JStr (level_var e));
          result = dict_set result ''weight''
                     (JFloat (case pfloat (weight_var e) of Some x \<Rightarrow> x | None \<Rightarrow> 1.0));
          result = (if is_herd then herd_part pfloat e result else result);
          wm_data = map (WeightMultiplierEditor_get_data pfloat) (wm_editors e);
          result = (if wm_data \<noteq> []
                    then dict_set result ''weightMultipliers'' (JList (map JObj wm_data))
                    else result);
          cond = ConditionEditor_get_data (cond_editor e);
          result = (if cond \<noteq> [] then dict_set result ''condition'' (JObj cond) else result);
          anti = ConditionEditor_get_data (anti_editor e);
          result = (if anti \<noteq> [] then dict_set result ''anticondition'' (JObj anti) else result)
      in case DropsEditor_get_data pfloat (drops_editor e) of
           Some drops \<Rightarrow> dict_set result ''drops'' (JObj drops)
         | None \<Rightarrow> result)"

subsection \<open>Browser editor (function \<open>render_spawn\<close>)\<close>

text \<open>
  The widget state of one spawn entry.  \<open>wm_vals\<close> and \<open>herd_vals\<close> have one element per
  rendered multiplier and herd member (the counts kept in the session state).  The model
  is a run that returns a record: \<open>Delete\<close> is not ticked, no \<open>Del\<close> box is ticked and no
  button is pressed.
\<close>

record spawn_widgets =
  id_val :: string
  type_val :: string
  pokemon_val :: string
  presets_val :: "string list"
  pos_val :: string
  bucket_val :: string
  level_val :: string
  weight_val :: real
  herdsize_val :: int
  herddist_val :: real
  herd_vals :: "herd_widgets list"
  wm_vals :: "wm_widgets list"
  cond_vals :: cond_widgets
  anti_vals :: cond_widgets
  drops_vals :: drops_widgets

text \<open>
  \<open>for wi in range(n): w = wms[wi] if wi < len(wms) else {"multiplier": 1.0, "condition": {}}\<close>.
\<close>

definition wm_source :: "json list \<Rightarrow> nat \<Rightarrow> dict" where
  "wm_source wms wi =
     (if wi < length wms then as_obj (wms ! wi)
      else [(''multiplier'', JFloat 1.0), (''condition'', JObj [])])"

definition updated_wms :: "dict \<Rightarrow> wm_widgets list \<Rightarrow> dict list" where
  "updated_wms spawn ws =
     (let wms = as_list (normalize_wms spawn)
      in map (\<lambda>(wi, w). render_weight_multiplier (wm_source wms wi) w) (enumerate 0 ws))"

text \<open>
  The clean-up at the end:
  \<open>for k in ["condition", "anticondition"]: if not result.get(k): result.pop(k, None)\<close>.
\<close>

definition pop_if_empty :: "string \<Rightarrow> dict \<Rightarrow> dict" where
  "pop_if_empty k result =
     (if \<not> py_truthy (py_get result k JNull) then dict_pop result k else result)"

definition render_spawn :: "dict \<Rightarrow> spawn_widgets \<Rightarrow> dict" where
  "render_spawn spawn w =
     (let result = dict_set (dict_set [] ''id'' (JStr (id_val w))) ''type'' (JStr (type_val w));
          is_herd = (type_val w = ''pokemon-herd'');
          result = (if \<not> is_herd then dict_set result ''pokemon'' (JStr (pokemon_val w))
                    else result);
          result = dict_set result ''presets'' (JList (map JStr (presets_val w)));
          result = dict_set result ''spawnablePositionType'' (JStr (pos_val w));
          result = dict_set result ''bucket'' (JStr (bucket_val w));
          level_field = (if is_herd then ''levelRange'' else ''level'');
          result = dict_set result level_field (JStr (level_val w));
          result = dict_set result ''weight'' (JFloat (weight_val w));
          result = (if is_herd then
                      dict_set (dict_set (dict_set result
                          ''maxHerdSize'' (JInt (herdsize_val w)))
                          ''minDistanceBetweenSpawns'' (JFloat (herddist_val w)))
                          ''herdablePokemon''
                            (JList (map (\<lambda>h. JObj (render_herd_pokemon h)) (herd_vals w)))
                    else result);
          wms_out = updated_wms spawn (wm_vals w);
          result = (if wms_out \<noteq> []
                    then dict_set result ''weightMultipliers'' (JList (map JObj wms_out))
                    else result);
          result = dict_set result ''condition''
                     (JObj (render_condition (as_obj (py_get spawn ''condition'' (JObj [])))
                             (cond_vals w)));
          result = dict_set result ''anticondition''
                     (JObj (render_condition (as_obj (py_get spawn ''anticondition'' (JObj [])))
                             (anti_vals w)));
          result = (case render_drops (drops_vals w) of
                      Some drops_result \<Rightarrow> dict_set result ''drops'' (JObj drops_result)
                    | None \<Rightarrow> result);
          result = pop_if_empty ''anticondition'' (pop_if_empty ''condition'' result)
      in if \<not> py_truthy (py_get result ''presets'' JNull) then dict_pop result ''presets''
         else result)"


section \<open>Loading the desktop module\<close>

text \<open>
  \<open>exe.py\<close> starts with \<open>from get_default_pokemons import reset, set_blank\<close>.  Python runs
  the body of \<open>get_default_pokemons\<close> and then looks the two names up among the names the
  module has bound.  The body binds its imports, its constants and its five functions
  (besides the attributes every module has, such as \<open>__name__\<close>); when \<open>requests\<close> is not
  installed it prints a message and calls \<open>sys.exit(1)\<close>.  The standard library,
  \<open>tkinter\<close> included, is taken to be present.
\<close>

datatype py_exception = ImportError string | SystemExit int

definition get_default_pokemons_names :: "string list" where
  "get_default_pokemons_names =
     [''io'', ''json'', ''os'', ''re'', ''sys'', ''tarfile'', ''rmtree'', ''requests'',
      ''BASE_URL'', ''PROJECT_ID'', ''SPAWN_FOLDER'', ''SPECIES_FOLDER'', ''REF'',
      ''OUTPUT_DIR'', ''BLANK_SPAWN'',
      ''download_spawn_pool'', ''fetch_all_species'', ''create_blank_spawns'',
      ''get_default'', ''reset'']"

definition load_get_default_pokemons :: "bool \<Rightarrow> py_exception + string list" where
  "load_get_default_pokemons requests_installed =
     (if requests_installed then Inr get_default_pokemons_names else Inl (SystemExit 1))"

text \<open>\<open>from m import n1, n2, ...\<close>: the first name the module has not bound raises.\<close>

fun import_names :: "string list \<Rightarrow> string list \<Rightarrow> py_exception + unit" where
  "import_names bound [] = Inr ()"
| "import_names bound (n # ns) =
     (if n \<in> set bound then import_names bound ns else Inl (ImportError n))"

definition import_from ::
    "py_exception + string list \<Rightarrow> string list \<Rightarrow> py_exception + unit" where
  "import_from m ns = (case m of Inl ex \<Rightarrow> Inl ex | Inr bound \<Rightarrow> import_names bound ns)"

text \<open>Line 16 of \<open>exe.py\<close> and line 13 of \<open>app.py\<close>.\<close>

definition exe_import :: "bool \<Rightarrow> py_exception + unit" where
  "exe_import requests_installed =
     import_from (load_get_default_pokemons requests_installed) [''reset'', ''set_blank'']"

definition app_import :: "bool \<Rightarrow> py_exception + unit" where
  "app_import requests_installed =
     import_from (load_get_default_pokemons requests_installed) [''reset'']"

text \<open>
  \<open>main()\<close> is called at the end of the module, so the application starts only when the
  import statement has returned.
\<close>

definition exe_starts :: "bool \<Rightarrow> bool" where
  "exe_starts requests_installed =
     (case exe_import requests_installed of Inr u \<Rightarrow> True | Inl ex \<Rightarrow> False)"


section \<open>Editor states and well-formed sources\<close>

text \<open>
  An editor made by \<open>_build\<close> has one variable per field of each vocabulary, in order, and
  editing changes the values only.  The same holds for the widgets of \<open>render_condition\<close>.
\<close>

definition editor_shaped :: "ConditionEditor \<Rightarrow> bool" where
  "editor_shaped e =
     (map fst (bool_vars e) = CONDITION_BOOL_FIELDS \<and>
      map fst (int_vars e) = CONDITION_INT_FIELDS \<and>
      map fst (list_texts e) = CONDITION_LIST_FIELDS \<and>
      map fst (str_vars e) = CONDITION_STRING_FIELDS)"

definition widgets_shaped :: "cond_widgets \<Rightarrow> bool" where
  "widgets_shaped w =
     (map fst (bool_vals w) = CONDITION_BOOL_FIELDS \<and>
      map fst (int_vals w) = CONDITION_INT_FIELDS \<and>
      map fst (list_vals w) = CONDITION_LIST_FIELDS \<and>
      map fst (str_vals w) = CONDITION_STRING_FIELDS)"

text \<open>The editor of the empty condition, \<open>ConditionEditor(parent, {})\<close>, and its widgets.\<close>

definition new_condition_editor :: ConditionEditor where
  "new_condition_editor =
     \<lparr> time_var = [], moon_var = [],
       bool_vars = map (\<lambda>field. (field, False)) CONDITION_BOOL_FIELDS,
       int_vars = map (\<lambda>field. (field, [], False)) CONDITION_INT_FIELDS,
       list_texts = map (\<lambda>field. (field, [])) CONDITION_LIST_FIELDS,
       str_vars = map (\<lambda>field. (field, [])) CONDITION_STRING_FIELDS \<rparr>"

definition new_condition_widgets :: cond_widgets where
  "new_condition_widgets =
     \<lparr> time_val = [], moon_val = [],
       bool_vals = map (\<lambda>field. (field, False)) CONDITION_BOOL_FIELDS,
       int_vals = map (\<lambda>field. (field, 0)) CONDITION_INT_FIELDS,
       list_vals = map (\<lambda>field. (field, [])) CONDITION_LIST_FIELDS,
       str_vals = map (\<lambda>field. (field, [])) CONDITION_STRING_FIELDS \<rparr>"

text \<open>
  A condition with every field at its zero, false or empty value.  An integer field of the
  desktop editor is at zero when its box is empty, or holds a zero that the source did not
  have; in the browser editor when the widget holds zero and the source had no value.
\<close>

definition exe_cond_zero :: "ConditionEditor \<Rightarrow> bool" where
  "exe_cond_zero e =
     (time_var e = [] \<and> moon_var e = [] \<and>
      list_all (\<lambda>(field, var). \<not> var) (bool_vars e) \<and>
      list_all (\<lambda>(field, var, had_value).
                  var = [] \<or> (py_int (py_strip var) = Some 0 \<and> \<not> had_value)) (int_vars e) \<and>
      list_all (\<lambda>(field, txt). txt = []) (list_texts e) \<and>
      list_all (\<lambda>(field, var). var = []) (str_vars e))"

definition app_cond_zero :: "dict \<Rightarrow> cond_widgets \<Rightarrow> bool" where
  "app_cond_zero cond w =
     (time_val w = [] \<and> moon_val w = [] \<and>
      list_all (\<lambda>(field, val). \<not> val) (bool_vals w) \<and>
      list_all (\<lambda>(field, val). val = 0 \<and> py_get cond field JNull = JNull) (int_vals w) \<and>
      list_all (\<lambda>(field, val). val = []) (list_vals w) \<and>
      list_all (\<lambda>(field, val). val = []) (str_vals w))"









section \<open>Example states\<close>

text \<open>
  Concrete sources and editor states on which the properties below are evaluated.
  \<open>example_pfloat\<close> agrees with \<open>float\<close> on the texts that occur in them.
\<close>

definition example_pfloat :: "string \<Rightarrow> real option" where
  "example_pfloat s =
     (if s = ''2.5'' then Some 2.5 else if s = ''2.0'' then Some 2.0
      else if s = ''1.0'' then Some 1.0 else if s = ''50'' then Some 50 else None)"

text \<open>\<open>example_fstr\<close> agrees with \<open>str\<close> on the floats \<open>2.0\<close> and \<open>2.5\<close>.\<close>

definition example_fstr :: "real \<Rightarrow> string" where
  "example_fstr x = (if x = 2.0 then ''2.0'' else ''2.5'')"

definition example_wm_editor :: WeightMultiplierEditor where
  "example_wm_editor = \<lparr> mult_var = ''2.5'', wm_cond_editor = new_condition_editor \<rparr>"


definition example_wm_widgets :: wm_widgets where
  "example_wm_widgets = \<lparr> mult_val = 2.5, mc_widgets = new_condition_widgets \<rparr>"

definition blank_item_row :: drop_row where
  "blank_item_row = \<lparr> item_var = '' '', qr_var = ''1-2'', pct_var = ''50'' \<rparr>"

definition apple_row :: drop_row where
  "apple_row = \<lparr> item_var = ''apple'', qr_var = [], pct_var = ''50'' \<rparr>"

definition example_drops_editor :: DropsEditor where
  "example_drops_editor =
     \<lparr> enabled_var = True, amount_var = ''two'', entry_widgets = [blank_item_row, apple_row] \<rparr>"

definition blank_item_widgets :: drop_widgets where
  "blank_item_widgets = \<lparr> item_val = [], qr_val = ''1-2'', pct_val = 50 \<rparr>"

definition apple_widgets :: drop_widgets where
  "apple_widgets = \<lparr> item_val = ''apple'', qr_val = [], pct_val = 50 \<rparr>"

definition example_drops_widgets :: drops_widgets where
  "example_drops_widgets =
     \<lparr> has_drops_val = True, amount_val = 1, entry_vals = [blank_item_widgets, apple_widgets] \<rparr>"

text \<open>A herd entry whose \<open>Pokemon\<close> box still holds the text of its time as a plain entry.\<close>

definition example_spawn_editor :: SpawnEditor where
  "example_spawn_editor =
     \<lparr> id_var = ''pidgey-1'', type_var = ''pokemon-herd'', pokemon_var = ''pidgey'',
       presets_list = [''natural''], pos_var = ''grounded'', bucket_var = ''common'',
       level_var = ''1-10'', weight_var = ''heavy'', herd_size_var = ''5'',
       herd_dist_var = ''2.5'', herd_editors = [], wm_editors = [example_wm_editor],
       cond_editor = new_condition_editor, anti_editor = new_condition_editor,
       drops_editor = example_drops_editor \<rparr>"

definition example_spawn_widgets :: spawn_widgets where
  "example_spawn_widgets =
     \<lparr> id_val = ''guard-1'', type_val = ''npc'', pokemon_val = ''guard'',
       presets_val = [], pos_val = ''grounded'', bucket_val = ''common'',
       level_val = ''1-10'', weight_val = 1, herdsize_val = 5, herddist_val = 1.5,
       herd_vals = [], wm_vals = [example_wm_widgets],
       cond_vals = new_condition_widgets, anti_vals = new_condition_widgets,
       drops_vals = example_drops_widgets \<rparr>"

text \<open>
  The editor of \<open>{"minY": 5}\<close>, and the same editor after the user has emptied the box
  and after the user has typed \<open>64\<close> into the \<open>maxY\<close> box.
\<close>

definition minY_editor :: ConditionEditor where
  "minY_editor =
     new_condition_editor \<lparr> int_vars :=
       map (\<lambda>field. (field, if field = ''minY'' then (''5'', True) else ([], False)))
         CONDITION_INT_FIELDS \<rparr>"

definition cleared_minY_editor :: ConditionEditor where
  "cleared_minY_editor =
     new_condition_editor \<lparr> int_vars :=
       map (\<lambda>field. (field, [], field = ''minY'')) CONDITION_INT_FIELDS \<rparr>"

definition edited_minY_editor :: ConditionEditor where
  "edited_minY_editor =
     new_condition_editor \<lparr> int_vars :=
       map (\<lambda>field. (field, if field = ''minY'' then (''5'', True)
                             else if field = ''maxY'' then (''64'', False) else ([], False)))
         CONDITION_INT_FIELDS \<rparr>"

definition edited_minY_widgets :: cond_widgets where
  "edited_minY_widgets =
     new_condition_widgets \<lparr> int_vals :=
       map (\<lambda>field. (field, if field = ''maxY'' then 64 else 0)) CONDITION_INT_FIELDS \<rparr>"

text \<open>The editor of \<open>{"moonPhase": 3}\<close>.\<close>

definition moon3_editor :: ConditionEditor where
  "moon3_editor = new_condition_editor \<lparr> moon_var := ''3'' \<rparr>"

text \<open>A record with the legacy singular key, and one whose singular value is empty.\<close>

definition legacy_multiplier :: json where
  "legacy_multiplier = JObj [(''multiplier'', JFloat 2.0), (''condition'', JObj [])]"

definition legacy_spawn :: dict where
  "legacy_spawn = [(''id'', JStr ''pidgey-1''), (''weightMultiplier'', legacy_multiplier)]"

definition empty_multiplier_spawn :: dict where
  "empty_multiplier_spawn = [(''id'', JStr ''pidgey-1''), (''weightMultiplier'', JObj [])]"

text \<open>The editor state that \<open>_build\<close> makes of the legacy multiplier.\<close>

definition legacy_wm_editor :: WeightMultiplierEditor where
  "legacy_wm_editor = \<lparr> mult_var = ''2.0'', wm_cond_editor = new_condition_editor \<rparr>"

definition legacy_spawn_editor :: SpawnEditor where
  "legacy_spawn_editor = example_spawn_editor \<lparr> wm_editors := [legacy_wm_editor] \<rparr>"

text \<open>A condition with a numeric moon phase and a time range outside the vocabulary.\<close>

definition unknown_enum_cond :: dict where
  "unknown_enum_cond = [(''moonPhase'', JInt 3), (''timeRange'', JStr ''sunset'')]"

definition unknown_enum_editor :: ConditionEditor where
  "unknown_enum_editor = new_condition_editor \<lparr> time_var := ''sunset'', moon_var := ''3'' \<rparr>"






section \<open>Dictionaries and field loops\<close>

lemma map_of_dict_set: "map_of (dict_set d k v) = (map_of d)(k \<mapsto> v)"
  by (simp add: dict_set_def update_conv')

lemma dict_set_not_Nil: "dict_set d k v \<noteq> []"
  by (cases d) (auto simp: dict_set_def)

lemma map_of_put_nonempty:
  "map_of (put_nonempty key val d) k =
     (if k = key \<and> val \<noteq> [] then Some (JStr val) else map_of d k)"
  by (simp add: put_nonempty_def map_of_dict_set)

lemma put_nonempty_Nil: "(put_nonempty key val d = []) = (d = [] \<and> val = [])"
  by (auto simp: put_nonempty_def dict_set_not_Nil)

lemma put_each_Nil [simp]: "put_each g [] d = d"
  by (simp add: put_each_def)

lemma put_each_Cons:
  "put_each g ((field, x) # items) d =
     put_each g items (case g x of Some v \<Rightarrow> dict_set d field v | None \<Rightarrow> d)"
  by (simp add: put_each_def)

lemma map_of_put_each_other:
  "k \<notin> fst ` set items \<Longrightarrow> map_of (put_each g items d) k = map_of d k"
proof (induction items arbitrary: d)
  case Nil
  then show ?case by simp
next
  case (Cons p items)
  obtain field x where p: "p = (field, x)" by (cases p)
  from Cons.prems have "k \<noteq> field" and "k \<notin> fst ` set items" by (auto simp: p)
  then show ?case
    by (simp add: p put_each_Cons Cons.IH map_of_dict_set split: option.split)
qed

lemma map_of_put_each:
  "distinct (map fst items) \<Longrightarrow> (k, x) \<in> set items \<Longrightarrow>
   map_of (put_each g items d) k = (case g x of Some v \<Rightarrow> Some v | None \<Rightarrow> map_of d k)"
proof (induction items arbitrary: d)
  case Nil
  then show ?case by simp
next
  case (Cons p items)
  obtain field y where p: "p = (field, y)" by (cases p)
  show ?case
  proof (cases "k = field")
    case True
    with Cons.prems have xy: "x = y" and notin: "k \<notin> fst ` set items"
      by (auto simp: p rev_image_eqI)
    show ?thesis
      by (simp add: p True xy put_each_Cons map_of_put_each_other [OF notin [unfolded True]]
            map_of_dict_set split: option.split)
  next
    case False
    with Cons.prems have "distinct (map fst items)" and "(k, x) \<in> set items"
      by (auto simp: p)
    then show ?thesis
      using False by (simp add: p put_each_Cons Cons.IH map_of_dict_set split: option.split)
  qed
qed

lemma put_each_eq_Nil:
  "(put_each g items d = []) = (d = [] \<and> (\<forall>p \<in> set items. g (snd p) = None))"
proof (induction items arbitrary: d)
  case Nil
  then show ?case by simp
next
  case (Cons p items)
  obtain field y where p: "p = (field, y)" by (cases p)
  show ?case
    by (cases "g y") (auto simp: p put_each_Cons Cons.IH dict_set_not_Nil)
qed

lemmas FIELDS_defs = CONDITION_BOOL_FIELDS_def CONDITION_INT_FIELDS_def
  CONDITION_LIST_FIELDS_def CONDITION_STRING_FIELDS_def

lemma distinct_fields:
  "distinct CONDITION_BOOL_FIELDS" "distinct CONDITION_INT_FIELDS"
  "distinct CONDITION_LIST_FIELDS" "distinct CONDITION_STRING_FIELDS"
  by (simp_all add: FIELDS_defs)

lemma bool_field_other:
  "k \<in> set CONDITION_BOOL_FIELDS \<Longrightarrow>
     k \<notin> set CONDITION_INT_FIELDS \<and> k \<notin> set CONDITION_LIST_FIELDS \<and>
     k \<notin> set CONDITION_STRING_FIELDS \<and> k \<noteq> ''timeRange'' \<and> k \<noteq> ''moonPhase''"
  by (auto simp: FIELDS_defs)

lemma int_field_other:
  "k \<in> set CONDITION_INT_FIELDS \<Longrightarrow>
     k \<notin> set CONDITION_BOOL_FIELDS \<and> k \<notin> set CONDITION_LIST_FIELDS \<and>
     k \<notin> set CONDITION_STRING_FIELDS \<and> k \<noteq> ''timeRange'' \<and> k \<noteq> ''moonPhase''"
  by (auto simp: FIELDS_defs)

lemma list_field_other:
  "k \<in> set CONDITION_LIST_FIELDS \<Longrightarrow>
     k \<notin> set CONDITION_BOOL_FIELDS \<and> k \<notin> set CONDITION_INT_FIELDS \<and>
     k \<notin> set CONDITION_STRING_FIELDS \<and> k \<noteq> ''timeRange'' \<and> k \<noteq> ''moonPhase''"
  by (auto simp: FIELDS_defs)

lemma string_field_other:
  "k \<in> set CONDITION_STRING_FIELDS \<Longrightarrow>
     k \<notin> set CONDITION_BOOL_FIELDS \<and> k \<notin> set CONDITION_INT_FIELDS \<and>
     k \<notin> set CONDITION_LIST_FIELDS \<and> k \<noteq> ''timeRange'' \<and> k \<noteq> ''moonPhase''"
  by (auto simp: FIELDS_defs)

lemma enum_key_other:
  "k = ''timeRange'' \<or> k = ''moonPhase'' \<Longrightarrow>
     k \<notin> set CONDITION_BOOL_FIELDS \<and> k \<notin> set CONDITION_INT_FIELDS \<and>
     k \<notin> set CONDITION_LIST_FIELDS \<and> k \<notin> set CONDITION_STRING_FIELDS"
  by (auto simp: FIELDS_defs)

lemma option_case_id: "(case x of None \<Rightarrow> None | Some v \<Rightarrow> Some v) = x"
  by (cases x) simp_all

lemma layered_lookup:
  fixes bs :: "(string \<times> 'a) list" and ns :: "(string \<times> 'b) list"
    and ls :: "(string \<times> 'c) list" and ss :: "(string \<times> 'd) list"
    and gb :: "'a \<Rightarrow> json option" and gn :: "'b \<Rightarrow> json option"
    and gl :: "'c \<Rightarrow> json option" and gs :: "'d \<Rightarrow> json option"
    and t m :: string
  assumes bs: "map fst bs = CONDITION_BOOL_FIELDS"
    and ns: "map fst ns = CONDITION_INT_FIELDS"
    and ls: "map fst ls = CONDITION_LIST_FIELDS"
    and ss: "map fst ss = CONDITION_STRING_FIELDS"
  defines "r \<equiv> put_each gs ss (put_each gl ls (put_each gn ns (put_each gb bs
                 (put_nonempty ''moonPhase'' m (put_nonempty ''timeRange'' t [])))))"
  shows "map_of r ''timeRange'' = (if t \<noteq> [] then Some (JStr t) else None)"
    and "map_of r ''moonPhase'' = (if m \<noteq> [] then Some (JStr m) else None)"
    and "(k, b) \<in> set bs \<Longrightarrow> map_of r k = gb b"
    and "(k, n) \<in> set ns \<Longrightarrow> map_of r k = gn n"
    and "(k, l) \<in> set ls \<Longrightarrow> map_of r k = gl l"
    and "(k, s) \<in> set ss \<Longrightarrow> map_of r k = gs s"
    and "k \<noteq> ''timeRange'' \<Longrightarrow> k \<noteq> ''moonPhase'' \<Longrightarrow> k \<notin> set CONDITION_BOOL_FIELDS \<Longrightarrow>
         k \<notin> set CONDITION_INT_FIELDS \<Longrightarrow> k \<notin> set CONDITION_LIST_FIELDS \<Longrightarrow>
         k \<notin> set CONDITION_STRING_FIELDS \<Longrightarrow> map_of r k = None"
proof -
  have sb: "fst ` set bs = set CONDITION_BOOL_FIELDS" using bs by (metis set_map)
  have sn: "fst ` set ns = set CONDITION_INT_FIELDS" using ns by (metis set_map)
  have sl: "fst ` set ls = set CONDITION_LIST_FIELDS" using ls by (metis set_map)
  have sst: "fst ` set ss = set CONDITION_STRING_FIELDS" using ss by (metis set_map)
  have db: "distinct (map fst bs)" and dn: "distinct (map fst ns)"
    and dl: "distinct (map fst ls)" and ds: "distinct (map fst ss)"
    by (simp_all add: bs ns ls ss distinct_fields)
  note other = map_of_put_each_other
  show "map_of r ''timeRange'' = (if t \<noteq> [] then Some (JStr t) else None)"
    using enum_key_other [of "''timeRange''"]
    by (simp add: r_def other sb sn sl sst map_of_put_nonempty)
  show "map_of r ''moonPhase'' = (if m \<noteq> [] then Some (JStr m) else None)"
    using enum_key_other [of "''moonPhase''"]
    by (simp add: r_def other sb sn sl sst map_of_put_nonempty)
  show "map_of r k = gb b" if "(k, b) \<in> set bs"
  proof -
    from that have "k \<in> set CONDITION_BOOL_FIELDS" using sb by force
    from bool_field_other [OF this] show ?thesis
      by (simp add: r_def other sn sl sst map_of_put_each [OF db that] map_of_put_nonempty
            option_case_id split: option.split)
  qed
  show "map_of r k = gn n" if "(k, n) \<in> set ns"
  proof -
    from that have "k \<in> set CONDITION_INT_FIELDS" using sn by force
    from int_field_other [OF this] show ?thesis
      by (simp add: r_def other sb sl sst map_of_put_each [OF dn that] map_of_put_nonempty
            option_case_id split: option.split)
  qed
  show "map_of r k = gl l" if "(k, l) \<in> set ls"
  proof -
    from that have "k \<in> set CONDITION_LIST_FIELDS" using sl by force
    from list_field_other [OF this] show ?thesis
      by (simp add: r_def other sb sn sst map_of_put_each [OF dl that] map_of_put_nonempty
            option_case_id split: option.split)
  qed
  show "map_of r k = gs s" if "(k, s) \<in> set ss"
  proof -
    from that have "k \<in> set CONDITION_STRING_FIELDS" using sst by force
    from string_field_other [OF this] show ?thesis
      by (simp add: r_def other sb sn sl map_of_put_each [OF ds that] map_of_put_nonempty
            option_case_id split: option.split)
  qed
  show "map_of r k = None"
    if "k \<noteq> ''timeRange''" "k \<noteq> ''moonPhase''" "k \<notin> set CONDITION_BOOL_FIELDS"
      "k \<notin> set CONDITION_INT_FIELDS" "k \<notin> set CONDITION_LIST_FIELDS"
      "k \<notin> set CONDITION_STRING_FIELDS"
    using that by (simp add: r_def other sb sn sl sst map_of_put_nonempty)
qed

lemma has_key_dict_set: "has_key (dict_set d k v) k' = (k' = k \<or> has_key d k')"
  by (simp add: has_key_def map_of_dict_set)

lemma has_key_herd_part:
  "has_key (herd_part pfloat e d) k =
     (k = ''maxHerdSize'' \<or> k = ''minDistanceBetweenSpawns'' \<or> k = ''herdablePokemon'' \<or>
      has_key d k)"
  by (auto simp: herd_part_def Let_def has_key_dict_set)

lemma has_key_Nil: "has_key [] k = False" by (simp add: has_key_def)

lemma has_key_dict_pop: "has_key (dict_pop d k) k' = (k' \<noteq> k \<and> has_key d k')"
  by (simp add: has_key_def dict_pop_def delete_conv')

lemma exe_spawn_keys:
  "has_key (SpawnEditor_get_data pfloat e) k =
     (k = ''id'' \<or> k = ''type'' \<or> k = ''spawnablePositionType'' \<or> k = ''bucket'' \<or>
      k = ''weight'' \<or>
      (k = ''pokemon'' \<and> type_var e \<noteq> ''pokemon-herd'') \<or>
      (k = ''presets'' \<and> presets_list e \<noteq> []) \<or>
      (k = ''level'' \<and> type_var e \<noteq> ''pokemon-herd'') \<or>
      (k = ''levelRange'' \<and> type_var e = ''pokemon-herd'') \<or>
      ((k = ''maxHerdSize'' \<or> k = ''minDistanceBetweenSpawns'' \<or> k = ''herdablePokemon'') \<and>
         type_var e = ''pokemon-herd'') \<or>
      (k = ''weightMultipliers'' \<and> wm_editors e \<noteq> []) \<or>
      (k = ''condition'' \<and> ConditionEditor_get_data (cond_editor e) \<noteq> []) \<or>
      (k = ''anticondition'' \<and> ConditionEditor_get_data (anti_editor e) \<noteq> []) \<or>
      (k = ''drops'' \<and> enabled_var (drops_editor e)))"
  unfolding SpawnEditor_get_data_def Let_def DropsEditor_get_data_def
  by (auto simp: has_key_dict_set has_key_herd_part has_key_Nil split: option.splits)

lemma updated_wms_Nil: "(updated_wms spawn ws = []) = (ws = [])"
  by (cases ws) (simp_all add: updated_wms_def Let_def)

lemma has_key_pop_if_empty:
  "has_key (pop_if_empty k d) k' =
     (has_key d k' \<and> (k' = k \<longrightarrow> py_truthy (py_get d k JNull)))"
  by (auto simp: pop_if_empty_def has_key_dict_pop)

lemma py_get_dict_set:
  "py_get (dict_set d k v) k' dflt = (if k' = k then v else py_get d k' dflt)"
  by (simp add: py_get_def map_of_dict_set)

lemma py_get_pop_if_empty_other:
  "k' \<noteq> k \<Longrightarrow> py_get (pop_if_empty k d) k' dflt = py_get d k' dflt"
  by (simp add: pop_if_empty_def py_get_def dict_pop_def delete_conv')

lemma app_spawn_keys:
  "has_key (render_spawn spawn w) k =
     (k = ''id'' \<or> k = ''type'' \<or> k = ''spawnablePositionType'' \<or> k = ''bucket'' \<or>
      k = ''weight'' \<or>
      (k = ''pokemon'' \<and> type_val w \<noteq> ''pokemon-herd'') \<or>
      (k = ''presets'' \<and> presets_val w \<noteq> []) \<or>
      (k = ''level'' \<and> type_val w \<noteq> ''pokemon-herd'') \<or>
      (k = ''levelRange'' \<and> type_val w = ''pokemon-herd'') \<or>
      ((k = ''maxHerdSize'' \<or> k = ''minDistanceBetweenSpawns'' \<or> k = ''herdablePokemon'') \<and>
         type_val w = ''pokemon-herd'') \<or>
      (k = ''weightMultipliers'' \<and> wm_vals w \<noteq> []) \<or>
      (k = ''condition'' \<and>
         render_condition (as_obj (py_get spawn ''condition'' (JObj []))) (cond_vals w) \<noteq> []) \<or>
      (k = ''anticondition'' \<and>
         render_condition (as_obj (py_get spawn ''anticondition'' (JObj []))) (anti_vals w) \<noteq> []) \<or>
      (k = ''drops'' \<and> has_drops_val (drops_vals w)))"
  unfolding render_spawn_def Let_def render_drops_def
  by (auto simp: has_key_dict_set has_key_Nil has_key_dict_pop has_key_pop_if_empty
        py_get_dict_set py_get_pop_if_empty_other updated_wms_Nil split: option.splits)

lemma new_editor_zero: "exe_cond_zero new_condition_editor"
  by (simp add: exe_cond_zero_def new_condition_editor_def FIELDS_defs)

lemma new_widgets_zero: "app_cond_zero [] new_condition_widgets"
  by (simp add: app_cond_zero_def new_condition_widgets_def FIELDS_defs py_get_def)

lemma exe_list_out_Nil: "exe_list_out [] = None"
  by (simp add: exe_list_out_def entries_of_def py_strip_def py_isspace_def nl_def)

lemma py_strip_Nil: "py_strip [] = []"
  by (simp add: py_strip_def)

lemma py_int_Nil: "py_int [] = None"
  by (simp add: py_int_def py_strip_Nil)

lemma exe_zero_get_data: "exe_cond_zero c \<Longrightarrow> ConditionEditor_get_data c = []"
  unfolding ConditionEditor_get_data_def exe_cond_zero_def
  by (auto simp: put_each_eq_Nil put_nonempty_Nil list_all_iff exe_bool_out_def exe_int_out_def
        exe_list_out_Nil exe_str_out_def py_strip_Nil Let_def)

lemma app_zero_render: "app_cond_zero cond w \<Longrightarrow> render_condition cond w = []"
  unfolding render_condition_def app_cond_zero_def
  by (auto simp: put_each_eq_Nil put_nonempty_Nil list_all_iff app_bool_out_def app_int_out_def
        app_list_out_def app_str_out_def entries_of_def py_strip_Nil Let_def)

text \<open>
  Claim C3.  A condition whose fields are all at their zero, false or empty values is
  encoded as the empty object by both editors, and a spawn entry whose encoded condition
  (or anticondition) is empty has no \<open>condition\<close> (or \<open>anticondition\<close>) key, in both
  front-ends.
\<close>
theorem empty_condition_omitted:
  "(exe_cond_zero c \<longrightarrow> ConditionEditor_get_data c = []) \<and>
   (app_cond_zero cond w \<longrightarrow> render_condition cond w = []) \<and>
   (ConditionEditor_get_data (cond_editor e) = [] \<longrightarrow>
      \<not> has_key (SpawnEditor_get_data pfloat e) ''condition'') \<and>
   (ConditionEditor_get_data (anti_editor e) = [] \<longrightarrow>
      \<not> has_key (SpawnEditor_get_data pfloat e) ''anticondition'') \<and>
   (render_condition (as_obj (py_get spawn ''condition'' (JObj []))) (cond_vals sw) = [] \<longrightarrow>
      \<not> has_key (render_spawn spawn sw) ''condition'') \<and>
   (render_condition (as_obj (py_get spawn ''anticondition'' (JObj []))) (anti_vals sw) = [] \<longrightarrow>
      \<not> has_key (render_spawn spawn sw) ''anticondition'')"
  by (simp add: exe_zero_get_data app_zero_render exe_spawn_keys app_spawn_keys)

text \<open>
  Claim C5.  The encoding of a weight multiplier always has the key \<open>condition\<close>, bound to
  the encoded condition whatever it is, the empty object included.  This holds for
  \<open>WeightMultiplierEditor.get_data\<close> and for \<open>render_weight_multiplier\<close>.
\<close>
theorem weight_multiplier_condition_kept:
  "dict_get (WeightMultiplierEditor_get_data pfloat e) ''condition'' =
     Some (JObj (ConditionEditor_get_data (wm_cond_editor e))) \<and>
   dict_get (render_weight_multiplier wm w) ''condition'' =
     Some (JObj (render_condition (as_obj (py_get wm ''condition'' (JObj []))) (mc_widgets w)))"
  by (simp add: dict_get_def WeightMultiplierEditor_get_data_def render_weight_multiplier_def
        map_of_dict_set Let_def)

theorem weight_multiplier_condition_kept_witness:
  "dict_get (WeightMultiplierEditor_get_data example_pfloat example_wm_editor) ''condition'' =
     Some (JObj []) \<and>
   dict_get (render_weight_multiplier [] example_wm_widgets) ''condition'' = Some (JObj [])"
  using weight_multiplier_condition_kept [of example_pfloat example_wm_editor "[]" example_wm_widgets]
    exe_zero_get_data [OF new_editor_zero] app_zero_render [OF new_widgets_zero]
  by (simp add: example_wm_editor_def example_wm_widgets_def py_get_def)

lemma exe_get_data_int:
  assumes "editor_shaped e" "(field, var, had_value) \<in> set (int_vars e)"
  shows "map_of (ConditionEditor_get_data e) field = exe_int_out (var, had_value)"
  using assms layered_lookup(4) [of "bool_vars e" "int_vars e" "list_texts e" "str_vars e"]
  unfolding ConditionEditor_get_data_def editor_shaped_def by blast

lemma exe_int_out_alt:
  "exe_int_out (var, had_value) =
     (case py_int (py_strip var) of
        Some val \<Rightarrow> if had_value \<or> val \<noteq> 0 then Some (JInt val) else None
      | None \<Rightarrow> None)"
  by (simp add: exe_int_out_def Let_def py_int_Nil)

lemma app_render_int:
  assumes "widgets_shaped w" "(field, v) \<in> set (int_vals w)"
  shows "map_of (render_condition cond w) field = app_int_out cond (field, v)"
proof -
  let ?ns = "map (\<lambda>(field, v). (field, (field, v))) (int_vals w)"
  have fst: "map fst ?ns = CONDITION_INT_FIELDS"
    using assms(1) by (simp add: widgets_shaped_def case_prod_unfold comp_def)
  have mem: "(field, (field, v)) \<in> set ?ns" using assms(2) by force
  show ?thesis
    using assms(1) fst mem
      layered_lookup(4) [of "bool_vals w" ?ns "list_vals w" "str_vals w"
        field "(field, v)" app_str_out app_list_out "app_int_out cond" app_bool_out]
    unfolding render_condition_def widgets_shaped_def by blast
qed

text \<open>
  Claim C6, as amended.  In the browser editor an integer field is encoded exactly when
  the source had a value for it or the widget holds a non-zero value, and it is encoded
  with the widget's value.  In the desktop editor the field is encoded exactly when the
  text of its box, stripped, parses as an integer \<open>val\<close> and the source had a value or
  \<open>val\<close> is not zero; an empty or malformed box leaves the field out even when the
  source had a value.
\<close>
theorem int_field_presence:
  "(editor_shaped e \<longrightarrow> (field, var, had_value) \<in> set (int_vars e) \<longrightarrow>
      dict_get (ConditionEditor_get_data e) field =
        (case py_int (py_strip var) of
           Some val \<Rightarrow> if had_value \<or> val \<noteq> 0 then Some (JInt val) else None
         | None \<Rightarrow> None)) \<and>
   (widgets_shaped w \<longrightarrow> (field', v) \<in> set (int_vals w) \<longrightarrow>
      dict_get (render_condition cond w) field' =
        (if py_get cond field' JNull \<noteq> JNull \<or> v \<noteq> 0 then Some (JInt v) else None))"
  by (simp add: dict_get_def exe_get_data_int exe_int_out_alt app_render_int app_int_out_def Let_def)

text \<open>
  Claim C8.  Whatever the other variables of the editor hold, an entry encoded with type
  \<open>pokemon-herd\<close> has neither \<open>pokemon\<close> nor \<open>level\<close>, and an entry encoded with any
  other type (\<open>pokemon\<close> and \<open>npc\<close> in particular) has none of \<open>levelRange\<close>,
  \<open>maxHerdSize\<close>, \<open>minDistanceBetweenSpawns\<close> and \<open>herdablePokemon\<close>.  This holds in both
  front-ends.
\<close>
theorem variant_fields_exclusive:
  "(type_var e = ''pokemon-herd'' \<longrightarrow>
      \<not> has_key (SpawnEditor_get_data pfloat e) ''pokemon'' \<and>
      \<not> has_key (SpawnEditor_get_data pfloat e) ''level'') \<and>
   (type_var e \<noteq> ''pokemon-herd'' \<longrightarrow>
      \<not> has_key (SpawnEditor_get_data pfloat e) ''levelRange'' \<and>
      \<not> has_key (SpawnEditor_get_data pfloat e) ''maxHerdSize'' \<and>
      \<not> has_key (SpawnEditor_get_data pfloat e) ''minDistanceBetweenSpawns'' \<and>
      \<not> has_key (SpawnEditor_get_data pfloat e) ''herdablePokemon'') \<and>
   (type_val w = ''pokemon-herd'' \<longrightarrow>
      \<not> has_key (render_spawn spawn w) ''pokemon'' \<and>
      \<not> has_key (render_spawn spawn w) ''level'') \<and>
   (type_val w \<noteq> ''pokemon-herd'' \<longrightarrow>
      \<not> has_key (render_spawn spawn w) ''levelRange'' \<and>
      \<not> has_key (render_spawn spawn w) ''maxHerdSize'' \<and>
      \<not> has_key (render_spawn spawn w) ''minDistanceBetweenSpawns'' \<and>
      \<not> has_key (render_spawn spawn w) ''herdablePokemon'')"
  by (simp add: exe_spawn_keys app_spawn_keys)

theorem variant_fields_exclusive_witness:
  "type_var example_spawn_editor = ''pokemon-herd'' \<and>
   pokemon_var example_spawn_editor = ''pidgey'' \<and>
   \<not> has_key (SpawnEditor_get_data example_pfloat example_spawn_editor) ''pokemon'' \<and>
   \<not> has_key (SpawnEditor_get_data example_pfloat example_spawn_editor) ''level'' \<and>
   type_val example_spawn_widgets = ''npc'' \<and>
   \<not> has_key (render_spawn [] example_spawn_widgets) ''levelRange'' \<and>
   \<not> has_key (render_spawn [] example_spawn_widgets) ''maxHerdSize'' \<and>
   \<not> has_key (render_spawn [] example_spawn_widgets) ''minDistanceBetweenSpawns'' \<and>
   \<not> has_key (render_spawn [] example_spawn_widgets) ''herdablePokemon''"
  using variant_fields_exclusive [of example_spawn_editor example_pfloat example_spawn_widgets "[]"]
  by (simp add: example_spawn_editor_def example_spawn_widgets_def)












lemma drop_row_out_None:
  "(drop_row_out pfloat wd = None) = (py_strip (item_var wd) = [])"
  by (simp add: drop_row_out_def Let_def)

lemma drop_row_out_item:
  "drop_row_out pfloat wd = Some en \<Longrightarrow>
     map_of en ''item'' = Some (JStr (py_strip (item_var wd))) \<and> py_strip (item_var wd) \<noteq> []"
  by (auto simp: drop_row_out_def Let_def map_of_dict_set split: if_splits option.splits)

lemma drop_entry_out_None: "(drop_entry_out w = None) = (item_val w = [])"
  by (simp add: drop_entry_out_def Let_def)

lemma drop_entry_out_item:
  "drop_entry_out w = Some en \<Longrightarrow>
     map_of en ''item'' = Some (JStr (item_val w)) \<and> item_val w \<noteq> []"
  by (auto simp: drop_entry_out_def Let_def map_of_dict_set split: if_splits)

lemma set_map_filter_iff: "(y \<in> set (List.map_filter f xs)) = (\<exists>x \<in> set xs. f x = Some y)"
  by (induction xs) (auto simp: List.map_filter_simps split: option.splits)

lemma length_map_filter:
  "length (List.map_filter f xs) = length (filter (\<lambda>x. f x \<noteq> None) xs)"
  by (simp add: List.map_filter_def)

text \<open>
  Claim C10.  A drop row whose item is empty (after stripping, in the desktop editor)
  yields no entry, whatever its quantity range and percentage hold.  The encoded
  \<open>entries\<close> list has one entry per row with a non-empty item, and every entry in it has
  a non-empty \<open>item\<close>.
\<close>
theorem drop_entries_have_item:
  "(py_strip (item_var wd) = [] \<longrightarrow> drop_row_out pfloat wd = None) \<and>
   (item_val dw = [] \<longrightarrow> drop_entry_out dw = None) \<and>
   (DropsEditor_get_data pfloat e = Some d \<longrightarrow>
      dict_get d ''entries'' =
        Some (JList (map JObj (List.map_filter (drop_row_out pfloat) (entry_widgets e)))) \<and>
      length (List.map_filter (drop_row_out pfloat) (entry_widgets e)) =
        length (filter (\<lambda>wd. py_strip (item_var wd) \<noteq> []) (entry_widgets e)) \<and>
      (\<forall>en \<in> set (List.map_filter (drop_row_out pfloat) (entry_widgets e)).
         \<exists>item. dict_get en ''item'' = Some (JStr item) \<and> item \<noteq> [])) \<and>
   (render_drops w = Some d' \<longrightarrow>
      dict_get d' ''entries'' =
        Some (JList (map JObj (List.map_filter drop_entry_out (entry_vals w)))) \<and>
      length (List.map_filter drop_entry_out (entry_vals w)) =
        length (filter (\<lambda>dw. item_val dw \<noteq> []) (entry_vals w)) \<and>
      (\<forall>en \<in> set (List.map_filter drop_entry_out (entry_vals w)).
         \<exists>item. dict_get en ''item'' = Some (JStr item) \<and> item \<noteq> []))"
proof -
  have exe: "\<forall>en \<in> set (List.map_filter (drop_row_out pfloat) (entry_widgets e)).
               \<exists>item. dict_get en ''item'' = Some (JStr item) \<and> item \<noteq> []"
    using drop_row_out_item by (fastforce simp: set_map_filter_iff dict_get_def)
  have app: "\<forall>en \<in> set (List.map_filter drop_entry_out (entry_vals w)).
               \<exists>item. dict_get en ''item'' = Some (JStr item) \<and> item \<noteq> []"
    using drop_entry_out_item by (fastforce simp: set_map_filter_iff dict_get_def)
  have exe_entries: "DropsEditor_get_data pfloat e = Some d \<Longrightarrow>
      dict_get d ''entries'' =
        Some (JList (map JObj (List.map_filter (drop_row_out pfloat) (entry_widgets e))))"
    by (auto simp: DropsEditor_get_data_def Let_def dict_get_def map_of_dict_set split: if_splits)
  have app_entries: "render_drops w = Some d' \<Longrightarrow>
      dict_get d' ''entries'' =
        Some (JList (map JObj (List.map_filter drop_entry_out (entry_vals w))))"
    by (auto simp: render_drops_def Let_def dict_get_def map_of_dict_set split: if_splits)
  show ?thesis
    using exe app exe_entries app_entries
    by (simp add: drop_row_out_None drop_entry_out_None length_map_filter)
qed

lemma example_drops_out:
  "DropsEditor_get_data example_pfloat example_drops_editor =
     Some [(''amount'', JInt 1),
           (''entries'', JList [JObj [(''item'', JStr ''apple''), (''percentage'', JFloat 50)]])]"
  by code_simp

lemma example_drops_widgets_out:
  "render_drops example_drops_widgets =
     Some [(''amount'', JInt 1),
           (''entries'', JList [JObj [(''item'', JStr ''apple''), (''percentage'', JFloat 50)]])]"
  by code_simp

theorem empty_condition_omitted_witness:
  "exe_cond_zero new_condition_editor \<and>
   ConditionEditor_get_data new_condition_editor = [] \<and>
   app_cond_zero [] new_condition_widgets \<and>
   render_condition [] new_condition_widgets = [] \<and>
   \<not> has_key (SpawnEditor_get_data example_pfloat example_spawn_editor) ''condition'' \<and>
   \<not> has_key (SpawnEditor_get_data example_pfloat example_spawn_editor) ''anticondition'' \<and>
   \<not> has_key (render_spawn [] example_spawn_widgets) ''condition'' \<and>
   \<not> has_key (render_spawn [] example_spawn_widgets) ''anticondition''"
  using empty_condition_omitted [of new_condition_editor "[]" new_condition_widgets
      example_spawn_editor example_pfloat "[]" example_spawn_widgets]
    new_editor_zero new_widgets_zero
  by (simp add: example_spawn_editor_def example_spawn_widgets_def py_get_def)

lemma shaped_edited: "editor_shaped edited_minY_editor"
  by (simp add: editor_shaped_def edited_minY_editor_def new_condition_editor_def comp_def)

lemma shaped_edited_widgets: "widgets_shaped edited_minY_widgets"
  by (simp add: widgets_shaped_def edited_minY_widgets_def new_condition_widgets_def comp_def)

lemma py_int_64: "py_int (py_strip ''64'') = Some 64"
  by code_simp

lemma edited_mem: "(''maxY'', ''64'', False) \<in> set (int_vars edited_minY_editor)"
  by (simp add: edited_minY_editor_def CONDITION_INT_FIELDS_def)

lemma edited_widgets_mem: "(''maxY'', 64) \<in> set (int_vals edited_minY_widgets)"
  by (simp add: edited_minY_widgets_def CONDITION_INT_FIELDS_def)

theorem int_field_presence_witness:
  "editor_shaped edited_minY_editor \<and>
   (''maxY'', ''64'', False) \<in> set (int_vars edited_minY_editor) \<and>
   dict_get (ConditionEditor_get_data edited_minY_editor) ''maxY'' = Some (JInt 64) \<and>
   widgets_shaped edited_minY_widgets \<and>
   (''maxY'', 64) \<in> set (int_vals edited_minY_widgets) \<and>
   dict_get (render_condition [] edited_minY_widgets) ''maxY'' = Some (JInt 64)"
  using int_field_presence [of edited_minY_editor "''maxY''" "''64''" False
      edited_minY_widgets "''maxY''" 64 "[]"]
    shaped_edited shaped_edited_widgets py_int_64 edited_mem edited_widgets_mem
  by simp

text \<open>
  The claim as stated fails in the desktop editor: the source \<open>{"minY": 5}\<close> has an
  explicit value, yet after the user empties the box the encoded condition has no
  \<open>minY\<close>.
\<close>
theorem int_field_presence_counterexample:
  "ConditionEditor_build [(''minY'', JInt 5)] = Some minY_editor \<and>
   (''minY'', ''5'', True) \<in> set (int_vars minY_editor) \<and>
   (''minY'', [], True) \<in> set (int_vars cleared_minY_editor) \<and>
   \<not> has_key (ConditionEditor_get_data cleared_minY_editor) ''minY''"
  by code_simp

theorem drop_entries_have_item_witness:
  "py_strip (item_var blank_item_row) = [] \<and>
   drop_row_out example_pfloat blank_item_row = None \<and>
   item_val blank_item_widgets = [] \<and>
   drop_entry_out blank_item_widgets = None \<and>
   DropsEditor_get_data example_pfloat example_drops_editor =
     Some [(''amount'', JInt 1),
           (''entries'', JList [JObj [(''item'', JStr ''apple''), (''percentage'', JFloat 50)]])] \<and>
   length (List.map_filter (drop_row_out example_pfloat) (entry_widgets example_drops_editor)) =
     length (filter (\<lambda>wd. py_strip (item_var wd) \<noteq> []) (entry_widgets example_drops_editor)) \<and>
   render_drops example_drops_widgets =
     Some [(''amount'', JInt 1),
           (''entries'', JList [JObj [(''item'', JStr ''apple''), (''percentage'', JFloat 50)]])] \<and>
   length (List.map_filter drop_entry_out (entry_vals example_drops_widgets)) =
     length (filter (\<lambda>dw. item_val dw \<noteq> []) (entry_vals example_drops_widgets))"
proof -
  let ?out = "[(''amount'', JInt 1),
               (''entries'', JList [JObj [(''item'', JStr ''apple''), (''percentage'', JFloat 50)]])]"
  have blank: "py_strip (item_var blank_item_row) = []" by code_simp
  have blank': "item_val blank_item_widgets = []" by (simp add: blank_item_widgets_def)
  show ?thesis
    using drop_entries_have_item [of blank_item_row example_pfloat blank_item_widgets
        example_drops_editor ?out example_drops_widgets ?out]
      blank blank' example_drops_out example_drops_widgets_out
    by simp
qed

section \<open>Module loading and weight multipliers\<close>

text \<open>
  Claim C2, as amended.  The import at the head of \<open>exe.py\<close> never returns, so the
  desktop application never starts: when \<open>requests\<close> is installed it raises
  \<open>ImportError\<close> for \<open>set_blank\<close>, a name \<open>get_default_pokemons\<close> does not bind; when
  \<open>requests\<close> is missing, \<open>get_default_pokemons\<close> leaves with \<open>SystemExit(1)\<close> before
  that.  \<open>app.py\<close> imports \<open>reset\<close> only and loads.
\<close>
theorem exe_import_outcome:
  "exe_import requests_installed =
     (if requests_installed then Inl (ImportError ''set_blank'') else Inl (SystemExit 1)) \<and>
   \<not> exe_starts requests_installed \<and>
   ''set_blank'' \<notin> set get_default_pokemons_names \<and>
   app_import True = Inr ()"
  by (simp add: exe_import_def app_import_def exe_starts_def import_from_def
        load_get_default_pokemons_def get_default_pokemons_names_def)

theorem exe_import_outcome_witness:
  "exe_import True = Inl (ImportError ''set_blank'') \<and> \<not> exe_starts True"
  using exe_import_outcome [of True] by simp

text \<open>
  The claim as stated fails on a run without \<open>requests\<close>: what leaves the import is
  \<open>SystemExit\<close>, not \<open>ImportError\<close>.
\<close>
theorem exe_import_counterexample:
  "exe_import False = Inl (SystemExit 1)"
  by (simp add: exe_import_def import_from_def load_get_default_pokemons_def)

lemma normalize_legacy:
  assumes "dict_get spawn ''weightMultiplier'' = Some wm" "py_truthy wm"
    "dict_get spawn ''weightMultipliers'' = None"
  shows "normalize_wms spawn = JList [wm]"
  using assms by (simp add: normalize_wms_def dict_get_def py_get_def Let_def)

lemma exe_spawn_wms:
  "map_of (SpawnEditor_get_data pfloat e) ''weightMultipliers'' =
     (if wm_editors e = [] then None
      else Some (JList (map JObj (map (WeightMultiplierEditor_get_data pfloat) (wm_editors e)))))"
  unfolding SpawnEditor_get_data_def Let_def herd_part_def
  by (cases "DropsEditor_get_data pfloat (drops_editor e)") (simp_all add: map_of_dict_set)

lemma map_of_dict_pop: "map_of (dict_pop d k) = (map_of d)(k := None)"
  by (simp add: dict_pop_def delete_conv')

lemma map_of_pop_if_empty_other:
  "k' \<noteq> k \<Longrightarrow> map_of (pop_if_empty k d) k' = map_of d k'"
  by (simp add: pop_if_empty_def map_of_dict_pop)

lemma app_spawn_wms:
  "map_of (render_spawn spawn w) ''weightMultipliers'' =
     (if wm_vals w = [] then None
      else Some (JList (map JObj (updated_wms spawn (wm_vals w)))))"
  unfolding render_spawn_def Let_def
  by (cases "render_drops (drops_vals w)")
     (simp_all add: map_of_dict_set map_of_dict_pop map_of_pop_if_empty_other updated_wms_Nil)

text \<open>
  Claim C4, as amended.  When \<open>weightMultiplier\<close> is present with a value that Python
  counts as true (a non-empty object) and \<open>weightMultipliers\<close> is absent, both
  front-ends start from the one-element list holding that value, and the desktop editor
  builds one multiplier editor from it.  An encoded spawn entry never has the key
  \<open>weightMultiplier\<close>; it has \<open>weightMultipliers\<close> exactly when the list of multipliers is
  not empty, bound to the encoded multipliers in order.
\<close>
theorem weight_multiplier_normalization:
  "(dict_get spawn ''weightMultiplier'' = Some wm \<longrightarrow> py_truthy wm \<longrightarrow>
    dict_get spawn ''weightMultipliers'' = None \<longrightarrow>
      normalize_wms spawn = JList [wm] \<and>
      build_wm_editors fstr spawn = [WeightMultiplierEditor_init fstr wm]) \<and>
   \<not> has_key (SpawnEditor_get_data pfloat e) ''weightMultiplier'' \<and>
   dict_get (SpawnEditor_get_data pfloat e) ''weightMultipliers'' =
     (if wm_editors e = [] then None
      else Some (JList (map JObj (map (WeightMultiplierEditor_get_data pfloat) (wm_editors e))))) \<and>
   \<not> has_key (render_spawn spawn' sw) ''weightMultiplier'' \<and>
   dict_get (render_spawn spawn' sw) ''weightMultipliers'' =
     (if wm_vals sw = [] then None
      else Some (JList (map JObj (updated_wms spawn' (wm_vals sw)))))"
  by (simp add: normalize_legacy build_wm_editors_def exe_spawn_keys app_spawn_keys
        dict_get_def [of "SpawnEditor_get_data pfloat e"] dict_get_def [of "render_spawn spawn' sw"]
        exe_spawn_wms app_spawn_wms)

lemma legacy_build: "WeightMultiplierEditor_init example_fstr legacy_multiplier = Some legacy_wm_editor"
  by code_simp

lemma legacy_out:
  "WeightMultiplierEditor_get_data example_pfloat legacy_wm_editor =
     [(''multiplier'', JFloat 2.0), (''condition'', JObj [])]"
  by code_simp

lemma legacy_app_out:
  "updated_wms legacy_spawn [example_wm_widgets] =
     [[(''multiplier'', JFloat 2.5), (''condition'', JObj [])]]"
  by code_simp

theorem weight_multiplier_normalization_witness:
  "dict_get legacy_spawn ''weightMultiplier'' = Some legacy_multiplier \<and>
   py_truthy legacy_multiplier \<and>
   dict_get legacy_spawn ''weightMultipliers'' = None \<and>
   normalize_wms legacy_spawn = JList [legacy_multiplier] \<and>
   build_wm_editors example_fstr legacy_spawn = [Some legacy_wm_editor] \<and>
   wm_editors legacy_spawn_editor = [legacy_wm_editor] \<and>
   \<not> has_key (SpawnEditor_get_data example_pfloat legacy_spawn_editor) ''weightMultiplier'' \<and>
   dict_get (SpawnEditor_get_data example_pfloat legacy_spawn_editor) ''weightMultipliers'' =
     Some (JList [JObj [(''multiplier'', JFloat 2.0), (''condition'', JObj [])]]) \<and>
   \<not> has_key (render_spawn legacy_spawn example_spawn_widgets) ''weightMultiplier'' \<and>
   dict_get (render_spawn legacy_spawn example_spawn_widgets) ''weightMultipliers'' =
     Some (JList [JObj [(''multiplier'', JFloat 2.5), (''condition'', JObj [])]])"
proof -
  have a: "dict_get legacy_spawn ''weightMultiplier'' = Some legacy_multiplier"
    by (simp add: dict_get_def legacy_spawn_def)
  have b: "py_truthy legacy_multiplier" by (simp add: legacy_multiplier_def)
  have c: "dict_get legacy_spawn ''weightMultipliers'' = None"
    by (simp add: dict_get_def legacy_spawn_def)
  show ?thesis
    using weight_multiplier_normalization [of legacy_spawn legacy_multiplier example_fstr
        example_pfloat legacy_spawn_editor legacy_spawn example_spawn_widgets]
      a b c legacy_build legacy_out legacy_app_out
    by (simp add: legacy_spawn_editor_def example_spawn_widgets_def)
qed

text \<open>
  The claim as stated fails when the singular value is the empty object: the key is
  present, the list key is absent, and the multipliers start as the empty list.
\<close>
theorem weight_multiplier_normalization_counterexample:
  "dict_get empty_multiplier_spawn ''weightMultiplier'' = Some (JObj []) \<and>
   dict_get empty_multiplier_spawn ''weightMultipliers'' = None \<and>
   normalize_wms empty_multiplier_spawn = JList []"
  by (simp add: dict_get_def empty_multiplier_spawn_def normalize_wms_def py_get_def)

section \<open>Integers and lines of text\<close>

lemma digit_char_facts:
  assumes "d < 10"
  shows "is_digit (digit_char d)" "digit_val (digit_char d) = d" "\<not> py_isspace (digit_char d)"
    "digit_char d \<noteq> CHR ''-''" "digit_char d \<noteq> CHR ''+''"
proof -
  from assms have "d \<in> {0, 1, 2, 3, 4, 5, 6, 7, 8, 9}" by auto
  then show "is_digit (digit_char d)" "digit_val (digit_char d) = d"
    "\<not> py_isspace (digit_char d)" "digit_char d \<noteq> CHR ''-''" "digit_char d \<noteq> CHR ''+''"
    by (auto simp: digit_char_def is_digit_def digit_val_def py_isspace_def)
qed

lemma is_digit_not_space: "is_digit c \<Longrightarrow> \<not> py_isspace c"
  by (auto simp: is_digit_def py_isspace_def)


lemma str_nat_digits: "str_nat n \<noteq> [] \<and> list_all is_digit (str_nat n)"
proof (induction n rule: str_nat.induct)
  case (1 n)
  show ?case
  proof (cases "n < 10")
    case True
    then show ?thesis by (simp add: str_nat.simps [of n] digit_char_facts)
  next
    case False
    with 1 show ?thesis by (simp add: str_nat.simps [of n] digit_char_facts)
  qed
qed






lemma str_nat_hd_last:
  "is_digit (hd (str_nat n)) \<and> is_digit (last (str_nat n))"
  using str_nat_digits [of n]
  by (cases "str_nat n") (auto simp: list_all_iff)

lemma str_int_shape:
  "str_int n \<noteq> [] \<and> \<not> py_isspace (hd (str_int n)) \<and> is_digit (last (str_int n))"
proof (cases "n < 0")
  case True
  have "\<not> py_isspace CHR ''-''" by (simp add: py_isspace_def)
  with True show ?thesis
    using str_nat_digits [of "nat (- n)"] str_nat_hd_last [of "nat (- n)"]
    by (simp add: str_int_def)
next
  case False
  then show ?thesis
    using str_nat_digits [of "nat n"] str_nat_hd_last [of "nat n"]
    by (simp add: str_int_def is_digit_not_space)
qed




lemma str_int_not_moon: "str_int n \<notin> set MOON_PHASES"
proof
  assume "str_int n \<in> set MOON_PHASES"
  then have "str_int n = [] \<or> \<not> is_digit (last (str_int n))"
    by (auto simp: MOON_PHASES_def is_digit_def)
  with str_int_shape [of n] show False by simp
qed


lemma split_nl_not_Nil: "split_nl s \<noteq> []"
  by (induction s) auto








section \<open>Decoding an encoded condition\<close>

lemma vars_shaped: "editor_shaped (ConditionEditor_vars cond)"
  by (simp add: editor_shaped_def ConditionEditor_vars_def comp_def)

lemma values_shaped: "widgets_shaped (widget_values cond)"
  by (simp add: widgets_shaped_def widget_values_def comp_def)

lemma exe_lookup:
  fixes cond :: dict
  defines "r \<equiv> ConditionEditor_get_data (ConditionEditor_vars cond)"
  shows "map_of r ''timeRange'' = (let t = as_str (py_get cond ''timeRange'' (JStr []))
                                   in if t \<noteq> [] then Some (JStr t) else None)"
    and "map_of r ''moonPhase'' = (let m = py_str (py_get cond ''moonPhase'' (JStr []))
                                   in if m \<noteq> [] then Some (JStr m) else None)"
    and "f \<in> set CONDITION_BOOL_FIELDS \<Longrightarrow>
           map_of r f = exe_bool_out (as_bool (py_get cond f (JBool False)))"
    and "f \<in> set CONDITION_INT_FIELDS \<Longrightarrow> map_of r f = exe_int_out (exe_int_var cond f)"
    and "f \<in> set CONDITION_LIST_FIELDS \<Longrightarrow> map_of r f = exe_list_out (exe_list_text cond f)"
    and "f \<in> set CONDITION_STRING_FIELDS \<Longrightarrow>
           map_of r f = exe_str_out (as_str (py_get cond f (JStr [])))"
proof -
  let ?e = "ConditionEditor_vars cond"
  have sh: "map fst (bool_vars ?e) = CONDITION_BOOL_FIELDS"
    "map fst (int_vars ?e) = CONDITION_INT_FIELDS"
    "map fst (list_texts ?e) = CONDITION_LIST_FIELDS"
    "map fst (str_vars ?e) = CONDITION_STRING_FIELDS"
    using vars_shaped [of cond] by (simp_all add: editor_shaped_def)
  note ll = layered_lookup [OF sh, where gs = exe_str_out and gl = exe_list_out
      and gn = exe_int_out and gb = exe_bool_out and m = "moon_var ?e" and t = "time_var ?e", folded ConditionEditor_get_data_def, folded r_def]
  show "map_of r ''timeRange'' = (let t = as_str (py_get cond ''timeRange'' (JStr []))
                                   in if t \<noteq> [] then Some (JStr t) else None)"
    using ll(1) by (simp add: ConditionEditor_vars_def)
  show "map_of r ''moonPhase'' = (let m = py_str (py_get cond ''moonPhase'' (JStr []))
                                   in if m \<noteq> [] then Some (JStr m) else None)"
    using ll(2) by (simp add: ConditionEditor_vars_def)
  show "map_of r f = exe_bool_out (as_bool (py_get cond f (JBool False)))"
    if "f \<in> set CONDITION_BOOL_FIELDS"
    using that by (intro ll(3)) (simp add: ConditionEditor_vars_def)
  show "map_of r f = exe_int_out (exe_int_var cond f)" if "f \<in> set CONDITION_INT_FIELDS"
    using that by (intro ll(4)) (simp add: ConditionEditor_vars_def)
  show "map_of r f = exe_list_out (exe_list_text cond f)" if "f \<in> set CONDITION_LIST_FIELDS"
    using that by (intro ll(5)) (simp add: ConditionEditor_vars_def)
  show "map_of r f = exe_str_out (as_str (py_get cond f (JStr [])))"
    if "f \<in> set CONDITION_STRING_FIELDS"
    using that by (intro ll(6)) (simp add: ConditionEditor_vars_def)
qed


lemma is_JInt_D: "is_JInt v \<Longrightarrow> \<exists>n. v = JInt n" by (cases v) auto










lemma app_lookup:
  fixes cond :: dict
  defines "r \<equiv> render_condition cond (widget_values cond)"
  shows "map_of r ''timeRange'' =
           (if app_time_val cond \<noteq> [] then Some (JStr (app_time_val cond)) else None)"
    and "map_of r ''moonPhase'' =
           (if app_moon_val cond \<noteq> [] then Some (JStr (app_moon_val cond)) else None)"
    and "f \<in> set CONDITION_BOOL_FIELDS \<Longrightarrow>
           map_of r f = app_bool_out (as_bool (py_get cond f (JBool False)))"
    and "f \<in> set CONDITION_INT_FIELDS \<Longrightarrow>
           map_of r f = app_int_out cond (f, app_int_val cond f)"
    and "f \<in> set CONDITION_LIST_FIELDS \<Longrightarrow> map_of r f = app_list_out (app_list_val cond f)"
    and "f \<in> set CONDITION_STRING_FIELDS \<Longrightarrow>
           map_of r f = app_str_out (as_str (py_get cond f (JStr [])))"
proof -
  let ?w = "widget_values cond"
  let ?ns = "map (\<lambda>(field, v). (field, (field, v))) (int_vals ?w)"
  have sh: "map fst (bool_vals ?w) = CONDITION_BOOL_FIELDS"
    "map fst ?ns = CONDITION_INT_FIELDS"
    "map fst (list_vals ?w) = CONDITION_LIST_FIELDS"
    "map fst (str_vals ?w) = CONDITION_STRING_FIELDS"
    by (simp_all add: widget_values_def comp_def)
  note ll = layered_lookup [OF sh, where gs = app_str_out and gl = app_list_out
      and gn = "app_int_out cond" and gb = app_bool_out and m = "moon_val ?w"
      and t = "time_val ?w", folded render_condition_def, folded r_def]
  show "map_of r ''timeRange'' =
           (if app_time_val cond \<noteq> [] then Some (JStr (app_time_val cond)) else None)"
    using ll(1) by (simp add: widget_values_def)
  show "map_of r ''moonPhase'' =
           (if app_moon_val cond \<noteq> [] then Some (JStr (app_moon_val cond)) else None)"
    using ll(2) by (simp add: widget_values_def)
  show "map_of r f = app_bool_out (as_bool (py_get cond f (JBool False)))"
    if "f \<in> set CONDITION_BOOL_FIELDS"
    using that by (intro ll(3)) (simp add: widget_values_def)
  show "map_of r f = app_int_out cond (f, app_int_val cond f)"
    if "f \<in> set CONDITION_INT_FIELDS"
    using that by (intro ll(4)) (simp add: widget_values_def comp_def image_iff)
  show "map_of r f = app_list_out (app_list_val cond f)" if "f \<in> set CONDITION_LIST_FIELDS"
    using that by (intro ll(5)) (simp add: widget_values_def)
  show "map_of r f = app_str_out (as_str (py_get cond f (JStr [])))"
    if "f \<in> set CONDITION_STRING_FIELDS"
    using that by (intro ll(6)) (simp add: widget_values_def)
qed

lemma app_time_in: "app_time_val cond \<in> set TIME_RANGES"
  by (auto simp: app_time_val_def Let_def TIME_RANGES_def)

lemma app_moon_in: "app_moon_val cond \<in> set MOON_PHASES"
  by (auto simp: app_moon_val_def Let_def MOON_PHASES_def)


















lemma widgets_SomeD: "condition_widgets cond = Some w \<Longrightarrow> w = widget_values cond"
  by (simp add: condition_widgets_def split: if_splits)

lemma build_SomeD: "ConditionEditor_build cond = Some e \<Longrightarrow> e = ConditionEditor_vars cond"
  by (simp add: ConditionEditor_build_def split: if_splits)

lemma moon_unset: "MOON_PHASES ! 0 = []"
  by (simp add: MOON_PHASES_def)

lemma app_moon_int:
  assumes "is_JInt (py_get cond ''moonPhase'' (JStr []))"
  shows "app_moon_val cond = []"
proof -
  from assms obtain n where "py_get cond ''moonPhase'' (JStr []) = JInt n"
    by (auto dest: is_JInt_D)
  then show ?thesis
    by (simp add: app_moon_val_def Let_def str_int_not_moon moon_unset)
qed

lemma app_enum_values:
  "py_get cond ''timeRange'' (JStr []) \<notin> set (map JStr TIME_RANGES) \<Longrightarrow> app_time_val cond = []"
  "py_str (py_get cond ''moonPhase'' (JStr [])) \<notin> set MOON_PHASES \<Longrightarrow> app_moon_val cond = []"
  "py_str (py_get cond ''moonPhase'' (JStr [])) \<in> set MOON_PHASES \<Longrightarrow>
     app_moon_val cond = py_str (py_get cond ''moonPhase'' (JStr []))"
  by (simp_all add: app_time_val_def app_moon_val_def Let_def TIME_RANGES_def MOON_PHASES_def)

text \<open>
  Claim C9, as amended.  The browser editor coerces \<open>moonPhase\<close> with \<open>str\<close> and matches
  it against the vocabulary: the widgets always hold a member of the vocabulary, a value
  outside it (every integer, for one) falls back to the unset choice \<open>""\<close>, and the unset
  choice is not encoded.  The desktop editor coerces \<open>moonPhase\<close> with \<open>str\<close> as well,
  but matches neither field: the variables hold the text of the source, and \<open>get_data\<close>
  writes any non-empty text back.
\<close>
theorem enum_decoding:
  "(condition_widgets cond = Some w \<longrightarrow>
      time_val w \<in> set TIME_RANGES \<and> moon_val w \<in> set MOON_PHASES \<and>
      (py_get cond ''timeRange'' (JStr []) \<notin> set (map JStr TIME_RANGES) \<longrightarrow> time_val w = []) \<and>
      (py_str (py_get cond ''moonPhase'' (JStr [])) \<notin> set MOON_PHASES \<longrightarrow> moon_val w = []) \<and>
      (is_JInt (py_get cond ''moonPhase'' (JStr [])) \<longrightarrow> moon_val w = []) \<and>
      (py_str (py_get cond ''moonPhase'' (JStr [])) \<in> set MOON_PHASES \<longrightarrow>
         moon_val w = py_str (py_get cond ''moonPhase'' (JStr []))) \<and>
      (time_val w = [] \<longrightarrow> \<not> has_key (render_condition cond w) ''timeRange'') \<and>
      (moon_val w = [] \<longrightarrow> \<not> has_key (render_condition cond w) ''moonPhase'')) \<and>
   (ConditionEditor_build cond = Some e \<longrightarrow>
      time_var e = as_str (py_get cond ''timeRange'' (JStr [])) \<and>
      moon_var e = py_str (py_get cond ''moonPhase'' (JStr [])) \<and>
      dict_get (ConditionEditor_get_data e) ''timeRange'' =
        (if time_var e = [] then None else Some (JStr (time_var e))) \<and>
      dict_get (ConditionEditor_get_data e) ''moonPhase'' =
        (if moon_var e = [] then None else Some (JStr (moon_var e))))"
proof -
  have fields: "time_var (ConditionEditor_vars cond) = as_str (py_get cond ''timeRange'' (JStr []))"
    "moon_var (ConditionEditor_vars cond) = py_str (py_get cond ''moonPhase'' (JStr []))"
    by (simp_all add: ConditionEditor_vars_def)
  have exe: "time_var e = as_str (py_get cond ''timeRange'' (JStr [])) \<and>
      moon_var e = py_str (py_get cond ''moonPhase'' (JStr [])) \<and>
      dict_get (ConditionEditor_get_data e) ''timeRange'' =
        (if time_var e = [] then None else Some (JStr (time_var e))) \<and>
      dict_get (ConditionEditor_get_data e) ''moonPhase'' =
        (if moon_var e = [] then None else Some (JStr (moon_var e)))"
    if "ConditionEditor_build cond = Some e"
    using build_SomeD [OF that] exe_lookup(1) [of cond] exe_lookup(2) [of cond]
    by (simp add: dict_get_def fields Let_def)
  have appw: "time_val w \<in> set TIME_RANGES \<and> moon_val w \<in> set MOON_PHASES \<and>
      (py_get cond ''timeRange'' (JStr []) \<notin> set (map JStr TIME_RANGES) \<longrightarrow> time_val w = []) \<and>
      (py_str (py_get cond ''moonPhase'' (JStr [])) \<notin> set MOON_PHASES \<longrightarrow> moon_val w = []) \<and>
      (is_JInt (py_get cond ''moonPhase'' (JStr [])) \<longrightarrow> moon_val w = []) \<and>
      (py_str (py_get cond ''moonPhase'' (JStr [])) \<in> set MOON_PHASES \<longrightarrow>
         moon_val w = py_str (py_get cond ''moonPhase'' (JStr []))) \<and>
      (time_val w = [] \<longrightarrow> \<not> has_key (render_condition cond w) ''timeRange'') \<and>
      (moon_val w = [] \<longrightarrow> \<not> has_key (render_condition cond w) ''moonPhase'')"
    if "condition_widgets cond = Some w"
  proof -
    have w: "w = widget_values cond" using that by (rule widgets_SomeD)
    have tv: "time_val w = app_time_val cond" "moon_val w = app_moon_val cond"
      by (simp_all add: w widget_values_def)
    show ?thesis
      using app_time_in [of cond] app_moon_in [of cond] app_moon_int [of cond]
        app_enum_values [of cond] app_lookup(1) [of cond] app_lookup(2) [of cond]
      unfolding tv by (simp add: has_key_def w)
  qed
  show ?thesis using exe appw by blast
qed

lemma unknown_enum_widgets: "condition_widgets unknown_enum_cond = Some new_condition_widgets"
  by code_simp

lemma unknown_enum_build: "ConditionEditor_build unknown_enum_cond = Some unknown_enum_editor"
  by code_simp

lemma unknown_enum_facts:
  "py_get unknown_enum_cond ''timeRange'' (JStr []) \<notin> set (map JStr TIME_RANGES)"
  "is_JInt (py_get unknown_enum_cond ''moonPhase'' (JStr []))"
  "time_var unknown_enum_editor = ''sunset''" "moon_var unknown_enum_editor = ''3''"
  by code_simp+

theorem enum_decoding_witness:
  "condition_widgets unknown_enum_cond = Some new_condition_widgets \<and>
   py_get unknown_enum_cond ''timeRange'' (JStr []) \<notin> set (map JStr TIME_RANGES) \<and>
   is_JInt (py_get unknown_enum_cond ''moonPhase'' (JStr [])) \<and>
   time_val new_condition_widgets = [] \<and> moon_val new_condition_widgets = [] \<and>
   \<not> has_key (render_condition unknown_enum_cond new_condition_widgets) ''timeRange'' \<and>
   \<not> has_key (render_condition unknown_enum_cond new_condition_widgets) ''moonPhase'' \<and>
   ConditionEditor_build unknown_enum_cond = Some unknown_enum_editor \<and>
   dict_get (ConditionEditor_get_data unknown_enum_editor) ''timeRange'' = Some (JStr ''sunset'') \<and>
   dict_get (ConditionEditor_get_data unknown_enum_editor) ''moonPhase'' = Some (JStr ''3'')"
  using enum_decoding [of unknown_enum_cond new_condition_widgets unknown_enum_editor]
    unknown_enum_widgets unknown_enum_build unknown_enum_facts
  by simp

text \<open>
  The claim as stated fails in the desktop editor: the numeric moon phase \<open>3\<close> becomes
  the text \<open>"3"\<close>, which is outside the vocabulary and is encoded as it is.
\<close>
theorem enum_decoding_counterexample:
  "ConditionEditor_build [(''moonPhase'', JInt 3)] = Some moon3_editor \<and>
   ''3'' \<notin> set MOON_PHASES \<and>
   dict_get (ConditionEditor_get_data moon3_editor) ''moonPhase'' = Some (JStr ''3'')"
  by code_simp

end
